theory Spec2Isabelle
  imports Complex_Main "HOL-Library.Log_Nat"
begin

section \<open>JavaScript numbers\<close>

text \<open>
  The prices, spreads and thresholds of \<^verbatim>\<open>src/index.js\<close> are JavaScript numbers, that is
  IEEE 754 binary64 values, obtained from \<^verbatim>\<open>parseFloat\<close>. A number is \<^verbatim>\<open>NaN\<close>,
  \<^verbatim>\<open>Infinity\<close>, \<^verbatim>\<open>-Infinity\<close>, or a finite double, which is represented by the rational it
  denotes. The two zeros are one value \<open>Num 0\<close>: the program never divides by a zero, and
  the sign of a zero shows in no comparison. A field of a ticker record holds the result
  of \<^verbatim>\<open>parseFloat\<close> on the field of the message (\<open>NaN\<close> when the field is missing or is
  not a number).
\<close>

datatype jsnum = NaN | PInf | NInf | Num rat

text \<open>
  Rounding to the nearest double, ties to even. For \<open>x > 0\<close>, \<open>floor_log2 x\<close> is the
  integer \<open>k\<close> with \<open>2^k \<le> x < 2^(k + 1)\<close>. A double near \<open>x\<close> is an integer multiple of
  \<open>2^(ulpExp x)\<close>: the significand has 53 bits, and the exponent does not go below
  \<open>-1074\<close>, where the subnormal numbers lie. A result of magnitude \<open>2^1024\<close> or more is an
  infinity.
\<close>

definition floor_log2 :: "rat \<Rightarrow> int" where
  "floor_log2 x =
     (if 1 \<le> x then int (floorlog 2 (nat \<lfloor>x\<rfloor>)) - 1
      else - int (floorlog 2 (nat (\<lceil>1 / x\<rceil> - 1))))"

definition ulpExp :: "rat \<Rightarrow> int" where
  "ulpExp x = max (floor_log2 \<bar>x\<bar> - 52) (- 1074)"

definition roundHalfEven :: "rat \<Rightarrow> int" where
  "roundHalfEven y =
     (let f = \<lfloor>y\<rfloor>; d = y - of_int f
      in if d < 1 / 2 then f else if 1 / 2 < d then f + 1 else if even f then f else f + 1)"

definition toDouble :: "rat \<Rightarrow> jsnum" where
  "toDouble x =
     (if x = 0 then Num 0
      else
        let y = of_int (roundHalfEven (x / 2 powi ulpExp x)) * 2 powi ulpExp x
        in if 2 powi 1024 \<le> \<bar>y\<bar> then (if 0 < x then PInf else NInf) else Num y)"

text \<open>The rationals that are doubles: rounding leaves them as they are.\<close>

definition isDouble :: "rat \<Rightarrow> bool" where
  "isDouble x = (toDouble x = Num x)"

text \<open>\<^verbatim>\<open>isNaN(x)\<close>.\<close>

fun isNaN :: "jsnum \<Rightarrow> bool" where
  "isNaN NaN = True"
| "isNaN _ = False"

text \<open>\<^verbatim>\<open>!x\<close> on a number: true for \<^verbatim>\<open>NaN\<close> and for zero.\<close>

fun falsy :: "jsnum \<Rightarrow> bool" where
  "falsy NaN = True"
| "falsy (Num r) = (r = 0)"
| "falsy _ = False"

text \<open>The comparisons \<^verbatim>\<open><\<close>, \<^verbatim>\<open><=\<close>, \<^verbatim>\<open>>\<close>, \<^verbatim>\<open>>=\<close>: false as soon as one side is \<^verbatim>\<open>NaN\<close>.\<close>

fun js_lt :: "jsnum \<Rightarrow> jsnum \<Rightarrow> bool" where
  "js_lt NaN _ = False"
| "js_lt _ NaN = False"
| "js_lt (Num a) (Num b) = (a < b)"
| "js_lt NInf NInf = False"
| "js_lt NInf _ = True"
| "js_lt _ NInf = False"
| "js_lt PInf _ = False"
| "js_lt _ PInf = True"

fun js_le :: "jsnum \<Rightarrow> jsnum \<Rightarrow> bool" where
  "js_le NaN _ = False"
| "js_le _ NaN = False"
| "js_le (Num a) (Num b) = (a \<le> b)"
| "js_le NInf _ = True"
| "js_le _ PInf = True"
| "js_le PInf _ = False"
| "js_le _ NInf = False"

fun js_gt :: "jsnum \<Rightarrow> jsnum \<Rightarrow> bool" where
  "js_gt NaN _ = False"
| "js_gt _ NaN = False"
| "js_gt (Num a) (Num b) = (b < a)"
| "js_gt PInf PInf = False"
| "js_gt PInf _ = True"
| "js_gt _ PInf = False"
| "js_gt NInf _ = False"
| "js_gt _ NInf = True"

fun js_ge :: "jsnum \<Rightarrow> jsnum \<Rightarrow> bool" where
  "js_ge NaN _ = False"
| "js_ge _ NaN = False"
| "js_ge (Num a) (Num b) = (b \<le> a)"
| "js_ge PInf _ = True"
| "js_ge _ NInf = True"
| "js_ge NInf _ = False"
| "js_ge _ PInf = False"

text \<open>\<^verbatim>\<open>Math.abs(x)\<close>.\<close>

fun js_abs :: "jsnum \<Rightarrow> jsnum" where
  "js_abs NaN = NaN"
| "js_abs (Num r) = Num \<bar>r\<bar>"
| "js_abs _ = PInf"

text \<open>
  The operators \<^verbatim>\<open>-\<close>, \<^verbatim>\<open>*\<close> and \<^verbatim>\<open>/\<close>: the exact result of two finite operands is
  rounded to a double; \<^verbatim>\<open>NaN\<close> propagates; \<^verbatim>\<open>Infinity - Infinity\<close>,
  \<^verbatim>\<open>0 * Infinity\<close>, \<^verbatim>\<open>Infinity / Infinity\<close> and \<^verbatim>\<open>0 / 0\<close> are \<^verbatim>\<open>NaN\<close>. A zero divisor
  is taken as \<open>+0\<close>; the program does not divide by a zero.
\<close>

fun js_sub :: "jsnum \<Rightarrow> jsnum \<Rightarrow> jsnum" where
  "js_sub NaN _ = NaN"
| "js_sub _ NaN = NaN"
| "js_sub (Num a) (Num b) = toDouble (a - b)"
| "js_sub PInf PInf = NaN"
| "js_sub NInf NInf = NaN"
| "js_sub PInf _ = PInf"
| "js_sub NInf _ = NInf"
| "js_sub _ PInf = NInf"
| "js_sub _ NInf = PInf"

fun js_mul :: "jsnum \<Rightarrow> jsnum \<Rightarrow> jsnum" where
  "js_mul NaN _ = NaN"
| "js_mul _ NaN = NaN"
| "js_mul (Num a) (Num b) = toDouble (a * b)"
| "js_mul PInf PInf = PInf"
| "js_mul NInf NInf = PInf"
| "js_mul PInf NInf = NInf"
| "js_mul NInf PInf = NInf"
| "js_mul PInf (Num b) = (if b = 0 then NaN else if 0 < b then PInf else NInf)"
| "js_mul NInf (Num b) = (if b = 0 then NaN else if 0 < b then NInf else PInf)"
| "js_mul (Num a) PInf = (if a = 0 then NaN else if 0 < a then PInf else NInf)"
| "js_mul (Num a) NInf = (if a = 0 then NaN else if 0 < a then NInf else PInf)"

fun js_div :: "jsnum \<Rightarrow> jsnum \<Rightarrow> jsnum" where
  "js_div NaN _ = NaN"
| "js_div _ NaN = NaN"
| "js_div (Num a) (Num b) =
     (if b = 0 then (if a = 0 then NaN else if 0 < a then PInf else NInf) else toDouble (a / b))"
| "js_div (Num a) _ = Num 0"
| "js_div PInf (Num b) = (if 0 \<le> b then PInf else NInf)"
| "js_div NInf (Num b) = (if 0 \<le> b then NInf else PInf)"
| "js_div _ _ = NaN"

section \<open>The spread\<close>

text \<open>
  \<^verbatim>\<open>
  function calcSpread(lastPrice, indexPrice) {
    if (!lastPrice || !indexPrice || indexPrice === 0) return 0;
    return ((lastPrice - indexPrice) / indexPrice) * 100;
  }
  \<close>
\<close>

definition calcSpread :: "jsnum \<Rightarrow> jsnum \<Rightarrow> jsnum" where
  "calcSpread lastPrice indexPrice =
     (if falsy lastPrice \<or> falsy indexPrice \<or> indexPrice = Num 0 then Num 0
      else js_mul (js_div (js_sub lastPrice indexPrice) indexPrice) (Num 100))"

text \<open>
  \<^verbatim>\<open>const direction = lastPrice < indexPrice ? 'LONG' : 'SHORT';\<close> (line 104; the older
  variant of the file has the same expression as the function \<^verbatim>\<open>getDirection\<close>).
\<close>

datatype direction = LONG | SHORT

definition getDirection :: "jsnum \<Rightarrow> jsnum \<Rightarrow> direction" where
  "getDirection lastPrice indexPrice = (if js_lt lastPrice indexPrice then LONG else SHORT)"

section \<open>Configuration, ticks and the shared state\<close>

text \<open>
  The three numeric settings the tick handler reads from \<^verbatim>\<open>CONFIG\<close>. Each is the result of
  \<^verbatim>\<open>parseFloat\<close> or \<^verbatim>\<open>parseInt\<close> on an environment variable, hence possibly \<^verbatim>\<open>NaN\<close>.
\<close>

record config =
  SPREAD_ENTRY_THRESHOLD :: jsnum
  SPREAD_EXIT_THRESHOLD :: jsnum
  SIGNAL_COOLDOWN_MS :: jsnum

text \<open>
  The argument \<^verbatim>\<open>data\<close> of \<^verbatim>\<open>processTickerData\<close>: \<open>data_symbol\<close> is \<^verbatim>\<open>data.symbol\<close>
  (\<open>None\<close> when the field is missing), \<open>data_lastPrice\<close> is \<^verbatim>\<open>parseFloat(data.lastPrice)\<close>
  and \<open>data_indexPrice\<close> is \<^verbatim>\<open>parseFloat(data.indexPrice)\<close>.
\<close>

record ticker =
  data_symbol :: "string option"
  data_lastPrice :: jsnum
  data_indexPrice :: jsnum

text \<open>\<^verbatim>\<open>!symbol\<close>: a missing symbol and the empty string are falsy.\<close>

fun falsy_symbol :: "string option \<Rightarrow> bool" where
  "falsy_symbol None = True"
| "falsy_symbol (Some s) = (s = [])"

text \<open>The value stored in \<^verbatim>\<open>state.activeSignals\<close>:
  \<^verbatim>\<open>{ direction, entryTime: Date.now(), entrySpread: spread }\<close>.\<close>

record signal =
  direction :: direction
  entryTime :: int
  entrySpread :: jsnum

text \<open>
  The texts handed to \<^verbatim>\<open>sendTelegram\<close>. \<^verbatim>\<open>formatEntry\<close> and \<^verbatim>\<open>formatExit\<close> render their
  arguments (and the wall-clock time) into an HTML string; the model keeps the arguments.
\<close>

datatype telegram =
    formatEntry "string option" direction jsnum jsnum jsnum
  | formatExit "string option" direction jsnum jsnum jsnum jsnum

text \<open>
  The three maps of \<^verbatim>\<open>state\<close> that the tick handler uses, keyed by \<^verbatim>\<open>data.symbol\<close>, and
  the sequence of texts passed to \<^verbatim>\<open>sendTelegram\<close> so far, oldest first.
\<close>

record state =
  activeSignals :: "string option \<rightharpoonup> signal"
  lastSignalTime :: "string option \<rightharpoonup> int"
  lastIndexPrice :: "string option \<rightharpoonup> jsnum"
  outbox :: "telegram list"

definition sendTelegram :: "telegram \<Rightarrow> state \<Rightarrow> state" where
  "sendTelegram text st = st\<lparr>outbox := outbox st @ [text]\<rparr>"

text \<open>
  \<^verbatim>\<open>Date.now()\<close> is read up to three times while one tick is handled: for
  \<^verbatim>\<open>cooldownOk\<close> (line 108), for \<^verbatim>\<open>entryTime\<close> (line 114) and for the value stored in
  \<^verbatim>\<open>state.lastSignalTime\<close> (line 115). A tick comes with these three readings, in
  milliseconds.
\<close>

record clock =
  at_cooldownOk :: int
  at_entryTime :: int
  at_lastSignalTime :: int

section \<open>The tick handler\<close>

text \<open>
  Lines 93 to 98 of \<^verbatim>\<open>processTickerData\<close>:
  \<^verbatim>\<open>
  let indexPrice = parseFloat(data.indexPrice);
  if (!isNaN(indexPrice) && indexPrice > 0) {
    state.lastIndexPrice.set(symbol, indexPrice);
  } else {
    indexPrice = state.lastIndexPrice.get(symbol) ?? NaN;
  }
  \<close>
  The result is the resolved index price and the cache after the statement.
\<close>

definition resolveIndexPrice ::
  "string option \<Rightarrow> jsnum \<Rightarrow> (string option \<rightharpoonup> jsnum) \<Rightarrow> jsnum \<times> (string option \<rightharpoonup> jsnum)" where
  "resolveIndexPrice symbol indexPrice cache =
     (if \<not> isNaN indexPrice \<and> js_gt indexPrice (Num 0)
      then (indexPrice, cache(symbol \<mapsto> indexPrice))
      else ((case cache symbol of Some v \<Rightarrow> v | None \<Rightarrow> NaN), cache))"

text \<open>
  \<^verbatim>\<open>const lastSent = state.lastSignalTime.get(symbol) || 0;\<close> (line 107): 0 for a missing
  entry and for a stored 0.
\<close>

definition lastSent :: "state \<Rightarrow> string option \<Rightarrow> int" where
  "lastSent st symbol =
     (case lastSignalTime st symbol of None \<Rightarrow> 0 | Some t \<Rightarrow> if t = 0 then 0 else t)"

text \<open>
  \<^verbatim>\<open>processTickerData(data)\<close>, lines 88 to 130. A reading of \<^verbatim>\<open>Date.now()\<close> is a whole
  number of milliseconds between 0 and \<open>8.64 * 10^15\<close>, which is below \<open>2^53\<close>, and
  \<^verbatim>\<open>lastSent\<close> is such a reading or 0; so \<^verbatim>\<open>Date.now() - lastSent\<close> is a double as it
  stands and is computed without rounding. The statement \<^verbatim>\<open>return\<close> of line 100 leaves
  the cache as the lines above it made it. In the exit branch \<^verbatim>\<open>hasSignal\<close> holds, so the
  \<open>None\<close> case of the lookup is never reached. The calls of \<^verbatim>\<open>console.log\<close> are left out.
\<close>

definition processTickerData :: "config \<Rightarrow> clock \<Rightarrow> ticker \<Rightarrow> state \<Rightarrow> state" where
  "processTickerData cfg clk data st =
     (let symbol = data_symbol data;
          lastPrice = data_lastPrice data;
          (indexPrice, cache) = resolveIndexPrice symbol (data_indexPrice data) (lastIndexPrice st);
          st1 = st\<lparr>lastIndexPrice := cache\<rparr>
      in if falsy_symbol symbol \<or> isNaN lastPrice \<or> isNaN indexPrice then st1
         else
           let spread = calcSpread lastPrice indexPrice;
               absSpread = js_abs spread;
               dir = getDirection lastPrice indexPrice;
               hasSignal = (activeSignals st1 symbol \<noteq> None);
               cooldownOk = js_ge (Num (of_int (at_cooldownOk clk - lastSent st1 symbol)))
                                  (SIGNAL_COOLDOWN_MS cfg)
           in if \<not> hasSignal \<and> js_ge absSpread (SPREAD_ENTRY_THRESHOLD cfg) \<and> cooldownOk then
                sendTelegram (formatEntry symbol dir lastPrice indexPrice spread)
                  (st1\<lparr>activeSignals := (activeSignals st1)(symbol \<mapsto>
                           \<lparr>direction = dir, entryTime = at_entryTime clk, entrySpread = spread\<rparr>),
                        lastSignalTime := (lastSignalTime st1)(symbol \<mapsto> at_lastSignalTime clk)\<rparr>)
              else if hasSignal \<and> js_le absSpread (SPREAD_EXIT_THRESHOLD cfg) then
                (case activeSignals st1 symbol of
                   Some sig \<Rightarrow>
                     sendTelegram
                       (formatExit symbol (direction sig) lastPrice indexPrice spread (entrySpread sig))
                       (st1\<lparr>activeSignals := (activeSignals st1)(symbol := None)\<rparr>)
                 | None \<Rightarrow> st1)
              else st1)"

text \<open>
  A valid tick, in the words of the specification: the symbol is present, the traded price
  \<open>lp\<close> is positive, and the index price \<open>ip\<close> that the handler resolves (the incoming
  one, or else the cached one) is positive. \<^verbatim>\<open>Infinity\<close> is positive.
\<close>

definition validTick :: "ticker \<Rightarrow> state \<Rightarrow> string \<Rightarrow> jsnum \<Rightarrow> jsnum \<Rightarrow> bool" where
  "validTick data st s lp ip =
     (data_symbol data = Some s \<and> s \<noteq> [] \<and> data_lastPrice data = lp \<and> js_gt lp (Num 0) \<and>
      fst (resolveIndexPrice (Some s) (data_indexPrice data) (lastIndexPrice st)) = ip \<and>
      js_gt ip (Num 0))"

text \<open>
  The settings when the environment sets none of them (the defaults of lines 13 to 19:
  \<^verbatim>\<open>parseFloat('0.7')\<close> and \<^verbatim>\<open>parseFloat('0.5')\<close> are the doubles nearest to \<open>0.7\<close> and
  \<open>0.5\<close>), the state at start-up (three empty maps, nothing sent), and a tick during which the clock
  does not advance.
\<close>

definition defaultConfig :: config where
  "defaultConfig = \<lparr>SPREAD_ENTRY_THRESHOLD = toDouble (7 / 10),
                     SPREAD_EXIT_THRESHOLD = toDouble (1 / 2),
                     SIGNAL_COOLDOWN_MS = Num 60000\<rparr>"

definition initialState :: state where
  "initialState = \<lparr>activeSignals = Map.empty, lastSignalTime = Map.empty,
                    lastIndexPrice = Map.empty, outbox = []\<rparr>"

definition atTime :: "int \<Rightarrow> clock" where
  "atTime t = \<lparr>at_cooldownOk = t, at_entryTime = t, at_lastSignalTime = t\<rparr>"

text \<open>The state in which one symbol has an open signal, with the timestamp of its Entry, and
  nothing else is recorded.\<close>

definition stateWithSignal :: "string \<Rightarrow> signal \<Rightarrow> int \<Rightarrow> state" where
  "stateWithSignal s sig t =
     initialState\<lparr>activeSignals := [Some s \<mapsto> sig], lastSignalTime := [Some s \<mapsto> t]\<rparr>"

text \<open>The \<^verbatim>\<open>data\<close> of a ticker message that names a symbol, with its two parsed prices.\<close>

definition tick :: "string \<Rightarrow> jsnum \<Rightarrow> jsnum \<Rightarrow> ticker" where
  "tick s lastPrice indexPrice =
     \<lparr>data_symbol = Some s, data_lastPrice = lastPrice, data_indexPrice = indexPrice\<rparr>"

text \<open>
  The handler is synchronous, so the ticks of all connections are handled one after the
  other; \<open>processTicks\<close> handles a sequence of ticks, each with its clock readings, in order
  of arrival.
\<close>

fun processTicks :: "config \<Rightarrow> (clock \<times> ticker) list \<Rightarrow> state \<Rightarrow> state" where
  "processTicks cfg [] st = st"
| "processTicks cfg ((clk, data) # rest) st = processTicks cfg rest (processTickerData cfg clk data st)"



section \<open>Sharding the symbols over connections and batches\<close>

text \<open>
  \<^verbatim>\<open>Math.ceil(a / b)\<close> for non-negative integers \<open>a\<close> and \<open>b\<close> with \<open>b \<ge> 1\<close>
  (for \<open>b = 0\<close> the quotient is an infinity or \<^verbatim>\<open>NaN\<close>, and the callers below treat that
  case themselves).
\<close>

definition ceil_div :: "nat \<Rightarrow> nat \<Rightarrow> nat" where
  "ceil_div a b = (a + b - 1) div b"

text \<open>\<^verbatim>\<open>xs.slice(start, end)\<close> for non-negative integers: empty when \<open>end \<le> start\<close>, cut at
  the end of the array.\<close>

definition slice :: "'a list \<Rightarrow> nat \<Rightarrow> nat \<Rightarrow> 'a list" where
  "slice xs start end' = take (end' - start) (drop start xs)"

text \<open>
  \<^verbatim>\<open>
  const symbolsPerConnection = Math.ceil(symbols.length / CONFIG.MAX_WS_CONNECTIONS);
  const actualConnections = Math.min(
    CONFIG.MAX_WS_CONNECTIONS,
    Math.ceil(symbols.length / CONFIG.BATCH_SIZE)
  );
  \<close>
  \<open>MAX_WS_CONNECTIONS\<close> and \<open>BATCH_SIZE\<close> are taken as natural numbers. \<open>actualConnections\<close> is
  the number of times the loop \<^verbatim>\<open>for (let i = 0; i < actualConnections; i++)\<close> runs: with
  \<open>BATCH_SIZE = 0\<close> the second argument of \<^verbatim>\<open>Math.min\<close> is \<^verbatim>\<open>Infinity\<close> for a non-empty
  list, and \<^verbatim>\<open>NaN\<close> for an empty one, where \<^verbatim>\<open>i < NaN\<close> is false at once.
\<close>

definition symbolsPerConnection :: "nat \<Rightarrow> nat \<Rightarrow> nat" where
  "symbolsPerConnection n MAX_WS_CONNECTIONS = ceil_div n MAX_WS_CONNECTIONS"

definition actualConnections :: "nat \<Rightarrow> nat \<Rightarrow> nat \<Rightarrow> nat" where
  "actualConnections n MAX_WS_CONNECTIONS BATCH_SIZE =
     (if BATCH_SIZE = 0 then (if n = 0 then 0 else MAX_WS_CONNECTIONS)
      else min MAX_WS_CONNECTIONS (ceil_div n BATCH_SIZE))"

text \<open>
  \<^verbatim>\<open>initializeWebSockets\<close>, lines 206 to 225: the lists of symbols passed to
  \<^verbatim>\<open>createWebSocketConnection\<close>, for \<open>i = 0, 1, \<dots>\<close> in this order, when every connection
  opens.
  \<^verbatim>\<open>
  for (let i = 0; i < actualConnections; i++) {
    const start = i * symbolsPerConnection;
    const end   = Math.min((i + 1) * symbolsPerConnection, symbols.length);
    const ws    = await createWebSocketConnection(symbols.slice(start, end), i);
  \<close>
  With \<open>MAX_WS_CONNECTIONS = 0\<close> the loop does not run, and \<open>symbolsPerConnection\<close> is not
  used.
\<close>

definition initializeWebSockets :: "nat \<Rightarrow> nat \<Rightarrow> 'a list \<Rightarrow> 'a list list" where
  "initializeWebSockets MAX_WS_CONNECTIONS BATCH_SIZE symbols =
     map (\<lambda>i. slice symbols
                 (i * symbolsPerConnection (length symbols) MAX_WS_CONNECTIONS)
                 (min ((i + 1) * symbolsPerConnection (length symbols) MAX_WS_CONNECTIONS)
                      (length symbols)))
         [0 ..< actualConnections (length symbols) MAX_WS_CONNECTIONS BATCH_SIZE]"

text \<open>
  The first loop of \<^verbatim>\<open>subscribeToSymbols\<close>, from index \<open>i\<close> on:
  \<^verbatim>\<open>
  for (let i = 0; i < symbols.length; i += CONFIG.BATCH_SIZE) {
    batches.push(symbols.slice(i, i + CONFIG.BATCH_SIZE));
  }
  \<close>
  With \<open>BATCH_SIZE = 0\<close> and a non-empty list the loop never ends: the result is \<open>None\<close>.
\<close>

function batches :: "nat \<Rightarrow> 'a list \<Rightarrow> nat \<Rightarrow> 'a list list option" where
  "batches BATCH_SIZE symbols i =
     (if i < length symbols then
        (if BATCH_SIZE = 0 then None
         else map_option ((#) (slice symbols i (i + BATCH_SIZE)))
                (batches BATCH_SIZE symbols (i + BATCH_SIZE)))
      else Some [])"
  by pat_completeness auto
termination
  by (relation "measure (\<lambda>(B, symbols, i). length symbols - i)") auto

declare batches.simps [simp del]

text \<open>
  \<^verbatim>\<open>subscribeToSymbols(ws, symbols)\<close>: the \<^verbatim>\<open>args\<close> of the subscribe frames sent on the
  connection, in order, one frame for each batch
  (\<^verbatim>\<open>batches[i].map(s => `tickers.${s}`)\<close>).
\<close>

definition subscribeToSymbols :: "nat \<Rightarrow> string list \<Rightarrow> string list list option" where
  "subscribeToSymbols BATCH_SIZE symbols =
     map_option (map (map (\<lambda>s. ''tickers.'' @ s))) (batches BATCH_SIZE symbols 0)"

section \<open>Facts about rounding\<close>

lemma roundHalfEven_floor_ceiling: "\<lfloor>y\<rfloor> \<le> roundHalfEven y \<and> roundHalfEven y \<le> \<lceil>y\<rceil>"
proof -
  have "\<lceil>y\<rceil> = \<lfloor>y\<rfloor> + 1" if "y - of_int \<lfloor>y\<rfloor> \<noteq> 0"
    using that by (metis ceiling_altdef diff_self of_int_floor_cancel eq_iff_diff_eq_0)
  then show ?thesis
    by (auto simp add: roundHalfEven_def Let_def)
qed

lemma roundHalfEven_near: "\<bar>of_int (roundHalfEven y) - y\<bar> \<le> 1 / 2"
proof -
  have "of_int \<lfloor>y\<rfloor> \<le> y" "y < of_int \<lfloor>y\<rfloor> + 1"
    by linarith+
  then show ?thesis
    by (auto simp add: roundHalfEven_def Let_def abs_le_iff)
qed

lemma floor_log2_bounds:
  assumes "0 < x"
  shows "2 powi floor_log2 x \<le> x" and "x < 2 powi (floor_log2 x + 1)"
proof -
  have "2 powi floor_log2 x \<le> x \<and> x < 2 powi (floor_log2 x + 1)"
  proof (cases "1 \<le> x")
    case True
    define n where "n = nat \<lfloor>x\<rfloor>"
    define b where "b = floorlog 2 n"
    have n: "0 < n" "of_nat n \<le> x" "x < of_nat n + 1"
      using True by (simp_all add: n_def) linarith+
    from floorlog_bounds [of n 2] n(1) have fb: "2 ^ (b - 1) \<le> n" "n < 2 ^ b"
      by (simp_all add: b_def)
    have bpos: "0 < b"
      using n(1) floorlog_eq_zero_iff [of 2 n] by (simp add: b_def)
    have k: "floor_log2 x = int (b - 1)"
      using True bpos by (simp add: floor_log2_def n_def b_def of_nat_diff)
    have "(of_nat (2 ^ (b - 1)) :: rat) \<le> of_nat n"
      using fb(1) by (rule of_nat_mono)
    then have "(2 :: rat) ^ (b - 1) \<le> of_nat n" by simp
    with n(2) have "(2 :: rat) ^ (b - 1) \<le> x" by linarith
    then have lo: "2 powi floor_log2 x \<le> x"
      by (simp only: k power_int_of_nat)
    have "n + 1 \<le> 2 ^ b" using fb(2) by simp
    then have "(of_nat (n + 1) :: rat) \<le> of_nat (2 ^ b)"
      by (rule of_nat_mono)
    then have "(of_nat n :: rat) + 1 \<le> 2 ^ b" by simp
    with n(3) have "x < 2 ^ b" by linarith
    moreover have "floor_log2 x + 1 = int b"
      using bpos by (simp add: k)
    ultimately have "x < 2 powi (floor_log2 x + 1)"
      by (simp only: power_int_of_nat)
    with lo show ?thesis ..
  next
    case False
    define y where "y = 1 / x"
    define c where "c = nat (\<lceil>y\<rceil> - 1)"
    define b where "b = floorlog 2 c"
    have y1: "1 < y" using False assms by (simp add: y_def)
    then have "2 \<le> \<lceil>y\<rceil>" by linarith
    then have c: "0 < c" "of_nat c < y" "y \<le> of_nat c + 1"
      by (simp_all add: c_def) linarith+
    from floorlog_bounds [of c 2] c(1) have fb: "2 ^ (b - 1) \<le> c" "c < 2 ^ b"
      by (simp_all add: b_def)
    have bpos: "0 < b"
      using c(1) floorlog_eq_zero_iff [of 2 c] by (simp add: b_def)
    have k: "floor_log2 x = - int b"
      using False by (simp add: floor_log2_def y_def c_def b_def)
    have x_eq: "x = 1 / y" using assms by (simp add: y_def)
    have "c + 1 \<le> 2 ^ b" using fb(2) by simp
    then have "(of_nat (c + 1) :: rat) \<le> of_nat (2 ^ b)"
      by (rule of_nat_mono)
    then have "(of_nat c :: rat) + 1 \<le> 2 ^ b" by simp
    with c(3) have yb: "y \<le> 2 ^ b" by linarith
    have "1 / 2 ^ b \<le> 1 / y"
      using yb y1 by (intro divide_left_mono) simp_all
    then have "1 / 2 ^ b \<le> x" by (simp only: x_eq)
    moreover have "(2 :: rat) powi floor_log2 x = 1 / 2 ^ b"
      by (simp add: k power_int_minus inverse_eq_divide)
    ultimately have lo: "2 powi floor_log2 x \<le> x" by simp
    have "(of_nat (2 ^ (b - 1)) :: rat) \<le> of_nat c"
      using fb(1) by (rule of_nat_mono)
    then have "(2 :: rat) ^ (b - 1) \<le> of_nat c" by simp
    with c(2) have "(2 :: rat) ^ (b - 1) < y" by linarith
    then have "1 / y < 1 / 2 ^ (b - 1)"
      using y1 by (intro divide_strict_left_mono) simp_all
    then have "x < 1 / 2 ^ (b - 1)" by (simp only: x_eq)
    moreover have "floor_log2 x + 1 = - int (b - 1)"
      using bpos by (simp add: k of_nat_diff)
    then have "(2 :: rat) powi (floor_log2 x + 1) = 1 / 2 ^ (b - 1)"
      by (simp only: power_int_minus power_int_of_nat inverse_eq_divide)
    ultimately have "x < 2 powi (floor_log2 x + 1)" by simp
    with lo show ?thesis ..
  qed
  then show "2 powi floor_log2 x \<le> x" and "x < 2 powi (floor_log2 x + 1)" by simp_all
qed

lemma pow2_pos [simp]: "0 < (2 :: rat) powi k"
  by simp

lemma pow2_add: "(2 :: rat) powi (a + b) = 2 powi a * 2 powi b"
  by (simp add: power_int_add)

lemma pow2_mono: "a \<le> b \<Longrightarrow> (2 :: rat) powi a \<le> 2 powi b"
  by (rule power_int_increasing) simp_all

lemma pow2_less_cancel: "(2 :: rat) powi a < 2 powi b \<Longrightarrow> a < b"
  using pow2_mono [of b a] by (cases "a < b") simp_all

lemma toDouble_cases:
  assumes "x \<noteq> 0"
  shows "toDouble x = Num (of_int (roundHalfEven (x / 2 powi ulpExp x)) * 2 powi ulpExp x) \<or>
         toDouble x = (if 0 < x then PInf else NInf)"
  using assms by (simp add: toDouble_def Let_def)

lemma toDouble_nonneg:
  assumes "0 \<le> x"
  shows "toDouble x = PInf \<or> (\<exists>y. toDouble x = Num y \<and> 0 \<le> y)"
proof (cases "x = 0")
  case True
  then show ?thesis by (simp add: toDouble_def)
next
  case False
  with assms have "0 \<le> x / 2 powi ulpExp x" by simp
  then have "0 \<le> \<lfloor>x / 2 powi ulpExp x\<rfloor>" by simp
  with roundHalfEven_floor_ceiling [of "x / 2 powi ulpExp x"]
  have "0 \<le> roundHalfEven (x / 2 powi ulpExp x)" by linarith
  then have "0 \<le> (of_int (roundHalfEven (x / 2 powi ulpExp x)) :: rat) * 2 powi ulpExp x"
    by simp
  with toDouble_cases [OF False] assms False show ?thesis by auto
qed

lemma toDouble_nonpos:
  assumes "x \<le> 0"
  shows "toDouble x = NInf \<or> (\<exists>y. toDouble x = Num y \<and> y \<le> 0)"
proof (cases "x = 0")
  case True
  then show ?thesis by (simp add: toDouble_def)
next
  case False
  with assms have "x / 2 powi ulpExp x \<le> 0" by (simp add: divide_le_0_iff)
  then have "\<lceil>x / 2 powi ulpExp x\<rceil> \<le> 0" by (simp add: ceiling_le_iff)
  with roundHalfEven_floor_ceiling [of "x / 2 powi ulpExp x"]
  have "roundHalfEven (x / 2 powi ulpExp x) \<le> 0" by linarith
  then have "(of_int (roundHalfEven (x / 2 powi ulpExp x)) :: rat) * 2 powi ulpExp x \<le> 0"
    by (simp add: mult_le_0_iff)
  with toDouble_cases [OF False] assms False show ?thesis by auto
qed

text \<open>No underflow to zero, and at most half of the magnitude is lost, from the smallest
  subnormal on.\<close>

lemma toDouble_magnitude:
  assumes "2 powi (- 1074) \<le> \<bar>x\<bar>"
  shows "toDouble x = PInf \<or> toDouble x = NInf \<or> (\<exists>y. toDouble x = Num y \<and> \<bar>x\<bar> \<le> 2 * \<bar>y\<bar>)"
proof -
  have x0: "x \<noteq> 0" "0 < \<bar>x\<bar>"
    using assms pow2_pos [of "- 1074"] by auto
  let ?e = "ulpExp x"
  let ?q = "x / 2 powi ?e"
  let ?m = "roundHalfEven ?q"
  have "(2 :: rat) powi (- 1074) < 2 powi (floor_log2 \<bar>x\<bar> + 1)"
    using assms floor_log2_bounds(2) [OF x0(2)] by linarith
  then have "- 1074 \<le> floor_log2 \<bar>x\<bar>"
    using pow2_less_cancel by fastforce
  then have "?e \<le> floor_log2 \<bar>x\<bar>" by (simp add: ulpExp_def)
  then have "(2 :: rat) powi ?e \<le> \<bar>x\<bar>"
    using pow2_mono floor_log2_bounds(1) [OF x0(2)] by (meson order_trans)
  then have q1: "1 \<le> \<bar>?q\<bar>"
    by (simp add: le_divide_eq)
  have "\<bar>?q\<bar> \<le> \<bar>of_int ?m\<bar> + \<bar>of_int ?m - ?q\<bar>" by linarith
  with roundHalfEven_near [of ?q] q1 have "\<bar>?q\<bar> \<le> 2 * \<bar>(of_int ?m :: rat)\<bar>" by linarith
  then have "\<bar>?q\<bar> * 2 powi ?e \<le> 2 * \<bar>(of_int ?m :: rat)\<bar> * 2 powi ?e"
    by (rule mult_right_mono) simp
  then have "\<bar>x\<bar> \<le> 2 * \<bar>of_int ?m * 2 powi ?e\<bar>"
    by (simp add: abs_mult)
  with toDouble_cases [OF x0(1)] show ?thesis by auto
qed

lemma toDouble_negative:
  assumes "x < 0" and "2 powi (- 1074) \<le> - x"
  shows "toDouble x = NInf \<or> (\<exists>y. toDouble x = Num y \<and> y < 0 \<and> - x \<le> 2 * - y)"
proof -
  from assms have "2 powi (- 1074) \<le> \<bar>x\<bar>" by simp
  from toDouble_magnitude [OF this] toDouble_nonpos [of x] assms show ?thesis
    by auto
qed

text \<open>A number that \<open>toDouble\<close> leaves as it is has a significand of at most 53 bits.\<close>

lemma double_representation:
  assumes "toDouble x = Num x" and "x \<noteq> 0"
  shows "\<exists>m e. x = of_int m * 2 powi e \<and> \<bar>m\<bar> \<le> 2 ^ 53 \<and> - 1074 \<le> e"
proof -
  have x0: "0 < \<bar>x\<bar>" using assms(2) by simp
  let ?e = "ulpExp x"
  let ?q = "x / 2 powi ?e"
  let ?m = "roundHalfEven ?q"
  from toDouble_cases [OF assms(2)] assms(1) have rep: "x = of_int ?m * 2 powi ?e"
    by (auto split: if_splits)
  have "floor_log2 \<bar>x\<bar> + 1 \<le> ?e + 53" by (simp add: ulpExp_def)
  then have "(2 :: rat) powi (floor_log2 \<bar>x\<bar> + 1) \<le> 2 powi (?e + 53)" by (rule pow2_mono)
  with floor_log2_bounds(2) [OF x0] have "\<bar>x\<bar> < 2 powi (?e + 53)" by linarith
  then have "\<bar>x\<bar> < 2 ^ 53 * 2 powi ?e" by (simp add: pow2_add mult.commute)
  then have "\<bar>?q\<bar> < 2 ^ 53" by (simp add: divide_less_eq)
  then have "- (2 ^ 53) < ?q" "?q < 2 ^ 53" by linarith+
  then have "- (2 ^ 53) \<le> \<lfloor>?q\<rfloor>" "\<lceil>?q\<rceil> \<le> 2 ^ 53"
    by (simp_all add: le_floor_iff ceiling_le_iff)
  with roundHalfEven_floor_ceiling [of ?q] have "\<bar>?m\<bar> \<le> 2 ^ 53" by linarith
  moreover have "- 1074 \<le> ?e" by (simp add: ulpExp_def)
  ultimately show ?thesis using rep by blast
qed

lemma pow2_split:
  assumes "g \<le> e"
  shows "of_int m * (2 :: rat) powi e = of_int (m * 2 ^ nat (e - g)) * 2 powi g"
proof -
  have "(2 :: rat) powi e = 2 powi (int (nat (e - g)) + g)"
    using assms by simp
  also have "\<dots> = 2 ^ nat (e - g) * 2 powi g"
    by (simp only: pow2_add power_int_of_nat)
  finally show ?thesis by simp
qed

lemma double_gap:
  fixes l r :: rat
  assumes l: "l = of_int ml * 2 powi el" "\<bar>ml\<bar> \<le> 2 ^ 53" "- 1074 \<le> el"
    and r: "r = of_int mr * 2 powi er" "\<bar>mr\<bar> \<le> 2 ^ 53" "- 1074 \<le> er"
    and lr: "0 < l" "l < r"
  shows "2 powi (- 1074) \<le> r - l" and "r \<le> (2 ^ 53 + 1) * (r - l)"
proof -
  define g where "g = min el er"
  define N where "N = mr * 2 ^ nat (er - g) - ml * 2 ^ nat (el - g)"
  have g: "g \<le> el" "g \<le> er" "- 1074 \<le> g"
    using l(3) r(3) by (simp_all add: g_def)
  have diff: "r - l = of_int N * 2 powi g"
    unfolding l(1) r(1) pow2_split [OF g(1)] pow2_split [OF g(2)] N_def
    by (simp add: algebra_simps)
  have "0 < of_int N * (2 :: rat) powi g"
    using lr diff by simp
  then have "0 < (of_int N :: rat)"
    by (rule zero_less_mult_pos2) simp
  then have "1 \<le> N" by simp
  then have "(1 :: rat) \<le> of_int N" by simp
  then have "1 * (2 :: rat) powi g \<le> of_int N * 2 powi g"
    by (rule mult_right_mono) simp
  then have step: "2 powi g \<le> r - l"
    by (simp add: diff)
  from pow2_mono [OF g(3)] step show "2 powi (- 1074) \<le> r - l"
    by linarith
  have "l \<le> 2 ^ 53 * (r - l)"
  proof (cases "el \<le> er")
    case True
    then have "g = el" by (simp add: g_def)
    have "(of_int ml :: rat) \<le> of_int (2 ^ 53)"
      using l(2) by (intro of_int_le_iff [THEN iffD2]) linarith
    then have "(of_int ml :: rat) * 2 powi el \<le> of_int (2 ^ 53) * 2 powi el"
      by (rule mult_right_mono) simp
    then have "l \<le> 2 ^ 53 * 2 powi el" by (simp add: l(1))
    moreover have "(2 ^ 53 :: rat) * 2 powi el \<le> 2 ^ 53 * (r - l)"
      using step \<open>g = el\<close> by simp
    ultimately show ?thesis by linarith
  next
    case False
    then have "g = er" by (simp add: g_def)
    have "(of_int mr :: rat) \<le> of_int (2 ^ 53)"
      using r(2) by (intro of_int_le_iff [THEN iffD2]) linarith
    then have "(of_int mr :: rat) * 2 powi er \<le> of_int (2 ^ 53) * 2 powi er"
      by (rule mult_right_mono) simp
    then have "r \<le> 2 ^ 53 * 2 powi er" by (simp add: r(1))
    moreover have "(2 ^ 53 :: rat) * 2 powi er \<le> 2 ^ 53 * (r - l)"
      using step \<open>g = er\<close> by simp
    ultimately show ?thesis using lr by linarith
  qed
  then show "r \<le> (2 ^ 53 + 1) * (r - l)"
    by (simp add: algebra_simps)
qed

lemma tiny_le: "(2 :: rat) powi (- 1074) \<le> 1 / 2 ^ 60"
proof -
  have "(2 :: rat) powi (- 1074) \<le> 2 powi (- 60)" by (rule pow2_mono) simp
  then show ?thesis by (simp add: power_int_minus inverse_eq_divide)
qed

lemma isDouble_representation:
  assumes "isDouble x" and "x \<noteq> 0"
  shows "\<exists>m e. x = of_int m * 2 powi e \<and> \<bar>m\<bar> \<le> 2 ^ 53 \<and> - 1074 \<le> e"
  using assms double_representation by (simp add: isDouble_def)

lemma spread_below_zero:
  assumes "isDouble l" and "isDouble r" and "0 < l" and "l < r"
  shows "js_lt (calcSpread (Num l) (Num r)) (Num 0)"
proof -
  from isDouble_representation [OF assms(1)] assms(3)
  obtain ml el where l: "l = of_int ml * 2 powi el" "\<bar>ml\<bar> \<le> 2 ^ 53" "- 1074 \<le> el"
    by auto
  from isDouble_representation [OF assms(2)] assms(3,4)
  obtain mr er where r: "r = of_int mr * 2 powi er" "\<bar>mr\<bar> \<le> 2 ^ 53" "- 1074 \<le> er"
    by auto
  note gap = double_gap [OF l r assms(3,4)]
  have rpos: "0 < r" using assms(3,4) by simp
  have spread: "calcSpread (Num l) (Num r) =
      js_mul (js_div (toDouble (l - r)) (Num r)) (Num 100)"
    using assms(3) rpos by (simp add: calcSpread_def)
  from toDouble_negative [of "l - r"] assms(4) gap(1)
  consider "toDouble (l - r) = NInf"
    | d where "toDouble (l - r) = Num d" "d < 0" "r - l \<le> 2 * - d"
    by auto
  then show ?thesis
  proof cases
    case 1
    then show ?thesis using rpos by (simp add: spread)
  next
    case 2
    have "(2 ^ 53 + 1) * (r - l) \<le> (2 ^ 53 + 1) * (2 * - d)"
      using 2(3) by (rule mult_left_mono) simp
    with gap(2) have "r \<le> (2 ^ 53 + 1) * (2 * - d)" by (rule order_trans)
    then have "1 / 2 ^ 60 * r \<le> - d"
      using 2(2) by simp
    then have "1 / 2 ^ 60 \<le> - d / r"
      using rpos by (simp only: pos_le_divide_eq)
    then have big: "1 / 2 ^ 60 \<le> - (d / r)" by simp
    have neg: "d / r < 0" using 2(2) rpos by (simp add: divide_neg_pos)
    from toDouble_negative [OF neg] big tiny_le
    consider "toDouble (d / r) = NInf"
      | q where "toDouble (d / r) = Num q" "q < 0" "- (d / r) \<le> 2 * - q"
      by (meson order_trans)
    then show ?thesis
    proof cases
      case 1
      then show ?thesis using rpos 2(1) by (simp add: spread)
    next
      case q: 2
      have neg3: "q * 100 < 0" using q(2) by simp
      have "1 / 2 ^ 60 \<le> - (q * 100)" using q(3) big by simp
      with tiny_le have "2 powi (- 1074) \<le> - (q * 100)" by (rule order_trans)
      from toDouble_negative [OF neg3 this]
      have "js_lt (toDouble (q * 100)) (Num 0)" by auto
      then show ?thesis using rpos 2(1) q(1) by (simp add: spread)
    qed
  qed
qed

lemma toDouble_not_negative: "0 \<le> x \<Longrightarrow> \<not> js_lt (toDouble x) (Num 0)"
  using toDouble_nonneg [of x] by auto

lemma spread_not_below_zero:
  assumes "0 < r" and "r \<le> l"
  shows "\<not> js_lt (calcSpread (Num l) (Num r)) (Num 0)"
proof -
  have spread: "calcSpread (Num l) (Num r) =
      js_mul (js_div (toDouble (l - r)) (Num r)) (Num 100)"
    using assms by (simp add: calcSpread_def)
  from toDouble_nonneg [of "l - r"] assms(2)
  consider "toDouble (l - r) = PInf" | d where "toDouble (l - r) = Num d" "0 \<le> d"
    by auto
  then show ?thesis
  proof cases
    case 1
    then show ?thesis using assms(1) by (simp add: spread)
  next
    case 2
    from toDouble_nonneg [of "d / r"] 2(2) assms(1)
    consider "toDouble (d / r) = PInf" | q where "toDouble (d / r) = Num q" "0 \<le> q"
      by auto
    then show ?thesis
    proof cases
      case 1
      then show ?thesis using assms(1) 2(1) by (simp add: spread)
    next
      case q: 2
      have "\<not> js_lt (toDouble (q * 100)) (Num 0)"
        using q(2) by (intro toDouble_not_negative) simp
      then show ?thesis using assms(1) 2(1) q(1) by (simp add: spread)
    qed
  qed
qed

lemma floor_log2_unique:
  assumes "2 powi k \<le> x" and "x < 2 powi (k + 1)"
  shows "floor_log2 x = k"
proof -
  have x: "0 < x" using assms(1) pow2_pos [of k] by linarith
  have "(2 :: rat) powi k < 2 powi (floor_log2 x + 1)"
    using assms(1) floor_log2_bounds(2) [OF x] by linarith
  then have "k < floor_log2 x + 1" by (rule pow2_less_cancel)
  moreover have "(2 :: rat) powi floor_log2 x < 2 powi (k + 1)"
    using assms(2) floor_log2_bounds(1) [OF x] by linarith
  then have "floor_log2 x < k + 1" by (rule pow2_less_cancel)
  ultimately show ?thesis by simp
qed

lemma roundHalfEven_eqI:
  assumes "\<bar>of_int m - y\<bar> < 1 / 2"
  shows "roundHalfEven y = m"
proof -
  have "\<bar>of_int (roundHalfEven y) - y\<bar> \<le> 1 / 2" by (rule roundHalfEven_near)
  with assms have "\<bar>(of_int (roundHalfEven y) :: rat) - of_int m\<bar> < 1" by linarith
  then have "\<bar>(of_int (roundHalfEven y - m) :: rat)\<bar> < 1" by simp
  then have "\<bar>roundHalfEven y - m\<bar> < 1"
    by (metis of_int_abs of_int_less_1_iff)
  then show ?thesis by simp
qed

text \<open>Rounding computed from the binade of the argument.\<close>

lemma toDouble_eqI:
  assumes "2 powi k \<le> \<bar>x\<bar>" and "\<bar>x\<bar> < 2 powi (k + 1)" and "k \<le> 1000"
    and "e = max (k - 52) (- 1074)" and "\<bar>of_int m - x / 2 powi e\<bar> < 1 / 2"
  shows "toDouble x = Num (of_int m * 2 powi e)"
proof -
  have "0 < \<bar>x\<bar>" using assms(1) pow2_pos [of k] by linarith
  then have x0: "x \<noteq> 0" by simp
  have e: "ulpExp x = e"
    using floor_log2_unique [OF assms(1,2)] assms(4) by (simp add: ulpExp_def)
  have m: "roundHalfEven (x / 2 powi e) = m"
    using assms(5) by (rule roundHalfEven_eqI)
  let ?y = "(of_int m :: rat) * 2 powi e"
  have "?y - x = (of_int m - x / 2 powi e) * 2 powi e"
    by (simp add: left_diff_distrib)
  then have "\<bar>?y - x\<bar> = \<bar>of_int m - x / 2 powi e\<bar> * 2 powi e"
    by (simp only: abs_mult abs_of_pos [OF pow2_pos])
  also have "\<dots> \<le> 1 / 2 * 2 powi e"
    using assms(5) by (intro mult_right_mono) simp_all
  finally have "\<bar>?y - x\<bar> \<le> 1 / 2 * 2 powi e" .
  note near = this
  define B :: int where "B = 1001"
  have B: "e \<le> B" "k + 1 \<le> B"
    using assms(3,4) by (simp_all add: B_def)
  have "(2 :: rat) powi e \<le> 2 powi B" "(2 :: rat) powi (k + 1) \<le> 2 powi B"
    using B by (simp_all add: pow2_mono)
  with near assms(2) have "\<bar>?y\<bar> < 2 * 2 powi B"
    using pow2_pos [of e] by linarith
  moreover have "(2 :: rat) * 2 powi B = 2 powi (B + 1)"
    by (simp add: pow2_add)
  moreover have "(2 :: rat) powi (B + 1) \<le> 2 powi 1024"
    by (rule pow2_mono) (simp add: B_def)
  ultimately have "\<not> 2 powi 1024 \<le> \<bar>?y\<bar>" by linarith
  then show ?thesis
    using x0 by (simp add: toDouble_def e m Let_def)
qed

text \<open>Values used in the examples below.\<close>

lemma toDouble_ex1: "toDouble (7 / 10) = Num (3152519739159347 / 4503599627370496)"
  using toDouble_eqI [of "- 1" "7 / 10" "- 53" 6305039478318694]
  by (simp add: power_int_minus)

lemma toDouble_ex2: "toDouble (1 / 2) = Num (1 / 2)"
  using toDouble_eqI [of "- 1" "1 / 2" "- 53" 4503599627370496]
  by (simp add: power_int_minus)

lemma toDouble_ex3: "toDouble 1 = Num 1"
  using toDouble_eqI [of 0 "1" "- 52" 4503599627370496]
  by (simp add: power_int_minus)

lemma toDouble_ex4: "toDouble (1 / 100) = Num (5764607523034235 / 576460752303423488)"
  using toDouble_eqI [of "- 7" "1 / 100" "- 59" 5764607523034235]
  by (simp add: power_int_minus)

lemma toDouble_ex5: "toDouble (144115188075855875 / 144115188075855872) = Num 1"
  using toDouble_eqI [of 0 "144115188075855875 / 144115188075855872" "- 52" 4503599627370496]
  by (simp add: power_int_minus)

lemma spread_ex1: "calcSpread (Num 101) (Num 100) = Num 1"
  by (simp add: calcSpread_def toDouble_ex3 toDouble_ex4 toDouble_ex5)

lemma toDouble_ex6: "toDouble (- 1) = Num (- 1)"
  using toDouble_eqI [of 0 "- 1" "- 52" "- 4503599627370496"]
  by (simp add: power_int_minus)

lemma toDouble_ex7: "toDouble (- (1 / 100)) = Num (- (5764607523034235 / 576460752303423488))"
  using toDouble_eqI [of "- 7" "- (1 / 100)" "- 59" "- 5764607523034235"]
  by (simp add: power_int_minus)

lemma toDouble_ex8: "toDouble (- (144115188075855875 / 144115188075855872)) = Num (- 1)"
  using toDouble_eqI [of 0 "- (144115188075855875 / 144115188075855872)" "- 52" "- 4503599627370496"]
  by (simp add: power_int_minus)

lemma spread_ex2: "calcSpread (Num 99) (Num 100) = Num (- 1)"
  by (simp add: calcSpread_def toDouble_ex6 toDouble_ex7 toDouble_ex8)

lemma toDouble_ex9: "toDouble 0 = Num 0"
  by (simp add: toDouble_def)

lemma spread_ex3: "calcSpread (Num 100) (Num 100) = Num 0"
  by (simp add: calcSpread_def toDouble_ex9 toDouble_ex9 toDouble_ex9)

lemma toDouble_ex10: "toDouble (- 105) = Num (- 105)"
  using toDouble_eqI [of 6 "- 105" "- 46" "- 7388718138654720"]
  by (simp add: power_int_minus)

lemma toDouble_ex11: "toDouble (- (21 / 20)) = Num (- (4728779608739021 / 4503599627370496))"
  using toDouble_eqI [of 0 "- (21 / 20)" "- 52" "- 4728779608739021"]
  by (simp add: power_int_minus)

lemma toDouble_ex12: "toDouble (- (118219490218475525 / 1125899906842624)) = Num (- 105)"
  using toDouble_eqI [of 6 "- (118219490218475525 / 1125899906842624)" "- 46" "- 7388718138654720"]
  by (simp add: power_int_minus)

lemma spread_ex4: "calcSpread (Num (- 5)) (Num 100) = Num (- 105)"
  by (simp add: calcSpread_def toDouble_ex10 toDouble_ex11 toDouble_ex12)

lemma toDouble_ex13: "toDouble (- 101) = Num (- 101)"
  using toDouble_eqI [of 6 "- 101" "- 46" "- 7107243161944064"]
  by (simp add: power_int_minus)

lemma toDouble_ex14: "toDouble (- (101 / 100)) = Num (- (4548635623644201 / 4503599627370496))"
  using toDouble_eqI [of 0 "- (101 / 100)" "- 52" "- 4548635623644201"]
  by (simp add: power_int_minus)

lemma toDouble_ex15: "toDouble (- (113715890591105025 / 1125899906842624)) = Num (- 101)"
  using toDouble_eqI [of 6 "- (113715890591105025 / 1125899906842624)" "- 46" "- 7107243161944064"]
  by (simp add: power_int_minus)

lemma spread_ex5: "calcSpread (Num (- 1)) (Num 100) = Num (- 101)"
  by (simp add: calcSpread_def toDouble_ex13 toDouble_ex14 toDouble_ex15)

lemma toDouble_ex16: "toDouble (1 / 8) = Num (1 / 8)"
  using toDouble_eqI [of "- 3" "1 / 8" "- 55" 4503599627370496]
  by (simp add: power_int_minus)

lemma toDouble_ex17: "toDouble (1 / 800) = Num (5764607523034235 / 4611686018427387904)"
  using toDouble_eqI [of "- 10" "1 / 800" "- 62" 5764607523034235]
  by (simp add: power_int_minus)

lemma toDouble_ex18: "toDouble (144115188075855875 / 1152921504606846976) = Num (1 / 8)"
  using toDouble_eqI [of "- 3" "144115188075855875 / 1152921504606846976" "- 55" 4503599627370496]
  by (simp add: power_int_minus)

lemma spread_ex6: "calcSpread (Num (801 / 8)) (Num 100) = Num (1 / 8)"
  by (simp add: calcSpread_def toDouble_ex16 toDouble_ex17 toDouble_ex18)

lemma toDouble_ex19: "toDouble (1 / 4) = Num (1 / 4)"
  using toDouble_eqI [of "- 2" "1 / 4" "- 54" 4503599627370496]
  by (simp add: power_int_minus)

lemma toDouble_ex20: "toDouble (1 / 400) = Num (5764607523034235 / 2305843009213693952)"
  using toDouble_eqI [of "- 9" "1 / 400" "- 61" 5764607523034235]
  by (simp add: power_int_minus)

lemma toDouble_ex21: "toDouble (144115188075855875 / 576460752303423488) = Num (1 / 4)"
  using toDouble_eqI [of "- 2" "144115188075855875 / 576460752303423488" "- 54" 4503599627370496]
  by (simp add: power_int_minus)

lemma spread_ex7: "calcSpread (Num (401 / 4)) (Num 100) = Num (1 / 4)"
  by (simp add: calcSpread_def toDouble_ex19 toDouble_ex20 toDouble_ex21)

lemma toDouble_ex22: "toDouble (3 / 8) = Num (3 / 8)"
  using toDouble_eqI [of "- 2" "3 / 8" "- 54" 6755399441055744]
  by (simp add: power_int_minus)

lemma toDouble_ex23: "toDouble (3 / 800) = Num (1080863910568919 / 288230376151711744)"
  using toDouble_eqI [of "- 9" "3 / 800" "- 61" 8646911284551352]
  by (simp add: power_int_minus)

lemma toDouble_ex24: "toDouble (27021597764222975 / 72057594037927936) = Num (3 / 8)"
  using toDouble_eqI [of "- 2" "27021597764222975 / 72057594037927936" "- 54" 6755399441055744]
  by (simp add: power_int_minus)

lemma spread_ex8: "calcSpread (Num (803 / 8)) (Num 100) = Num (3 / 8)"
  by (simp add: calcSpread_def toDouble_ex22 toDouble_ex23 toDouble_ex24)

lemma toDouble_ex25: "toDouble (1 / 200) = Num (5764607523034235 / 1152921504606846976)"
  using toDouble_eqI [of "- 8" "1 / 200" "- 60" 5764607523034235]
  by (simp add: power_int_minus)

lemma toDouble_ex26: "toDouble (144115188075855875 / 288230376151711744) = Num (1 / 2)"
  using toDouble_eqI [of "- 1" "144115188075855875 / 288230376151711744" "- 53" 4503599627370496]
  by (simp add: power_int_minus)

lemma spread_ex9: "calcSpread (Num (201 / 2)) (Num 100) = Num (1 / 2)"
  by (simp add: calcSpread_def toDouble_ex2 toDouble_ex25 toDouble_ex26)

lemma toDouble_ex27: "toDouble (5 / 8) = Num (5 / 8)"
  using toDouble_eqI [of "- 1" "5 / 8" "- 53" 5629499534213120]
  by (simp add: power_int_minus)

lemma toDouble_ex28: "toDouble (1 / 160) = Num (3602879701896397 / 576460752303423488)"
  using toDouble_eqI [of "- 8" "1 / 160" "- 60" 7205759403792794]
  by (simp add: power_int_minus)

lemma toDouble_ex29: "toDouble (90071992547409925 / 144115188075855872) = Num (5 / 8)"
  using toDouble_eqI [of "- 1" "90071992547409925 / 144115188075855872" "- 53" 5629499534213120]
  by (simp add: power_int_minus)

lemma spread_ex10: "calcSpread (Num (805 / 8)) (Num 100) = Num (5 / 8)"
  by (simp add: calcSpread_def toDouble_ex27 toDouble_ex28 toDouble_ex29)

lemma toDouble_ex30: "toDouble (1 / 128) = Num (1 / 128)"
  using toDouble_eqI [of "- 7" "1 / 128" "- 59" 4503599627370496]
  by (simp add: power_int_minus)

lemma toDouble_ex31: "toDouble (25 / 32) = Num (25 / 32)"
  using toDouble_eqI [of "- 1" "25 / 32" "- 53" 7036874417766400]
  by (simp add: power_int_minus)

lemma spread_ex11: "calcSpread (Num 129) (Num 128) = Num (25 / 32)"
  by (simp add: calcSpread_def toDouble_ex3 toDouble_ex30 toDouble_ex31)

lemma toDouble_ex32: "toDouble 99 = Num 99"
  using toDouble_eqI [of 6 "99" "- 46" 6966505673588736]
  by (simp add: power_int_minus)

lemma toDouble_ex33: "toDouble 100 = Num 100"
  using toDouble_eqI [of 6 "100" "- 46" 7036874417766400]
  by (simp add: power_int_minus)

lemma toDouble_ex34: "toDouble 101 = Num 101"
  using toDouble_eqI [of 6 "101" "- 46" 7107243161944064]
  by (simp add: power_int_minus)

lemma toDouble_ex35: "toDouble 5 = Num 5"
  using toDouble_eqI [of 2 "5" "- 50" 5629499534213120]
  by (simp add: power_int_minus)

lemma toDouble_ex36: "toDouble 128 = Num 128"
  using toDouble_eqI [of 7 "128" "- 45" 4503599627370496]
  by (simp add: power_int_minus)

lemma toDouble_ex37: "toDouble 129 = Num 129"
  using toDouble_eqI [of 7 "129" "- 45" 4538783999459328]
  by (simp add: power_int_minus)

lemmas toDouble_examples = toDouble_ex1 toDouble_ex2 toDouble_ex3 toDouble_ex4 toDouble_ex5 toDouble_ex6 toDouble_ex7 toDouble_ex8 toDouble_ex9 toDouble_ex10 toDouble_ex11 toDouble_ex12 toDouble_ex13 toDouble_ex14 toDouble_ex15 toDouble_ex16 toDouble_ex17 toDouble_ex18 toDouble_ex19 toDouble_ex20 toDouble_ex21 toDouble_ex22 toDouble_ex23 toDouble_ex24 toDouble_ex25 toDouble_ex26 toDouble_ex27 toDouble_ex28 toDouble_ex29 toDouble_ex30 toDouble_ex31 toDouble_ex32 toDouble_ex33 toDouble_ex34 toDouble_ex35 toDouble_ex36 toDouble_ex37

lemmas default_thresholds = toDouble_ex1 toDouble_ex2

lemmas spread_examples = spread_ex1 spread_ex2 spread_ex3 spread_ex4 spread_ex5 spread_ex6 spread_ex7 spread_ex8 spread_ex9 spread_ex10 spread_ex11

lemma double_examples:
  "isDouble 99" "isDouble 100" "isDouble 101" "isDouble 5" "isDouble 128" "isDouble 129"
  by (simp_all add: isDouble_def toDouble_ex32 toDouble_ex33 toDouble_ex34 toDouble_ex35 toDouble_ex36 toDouble_ex37)

section \<open>Facts about the tick handler\<close>

lemmas example_defs = defaultConfig_def initialState_def atTime_def tick_def stateWithSignal_def

lemma js_gt_not_NaN: "js_gt x (Num 0) \<Longrightarrow> \<not> isNaN x"
  by (cases x) simp_all

lemma resolve_valid:
  "js_gt x (Num 0) \<Longrightarrow> resolveIndexPrice k x cache = (x, cache(k \<mapsto> x))"
  by (simp add: resolveIndexPrice_def js_gt_not_NaN)

lemma resolve_invalid:
  "\<not> js_gt x (Num 0) \<Longrightarrow>
   resolveIndexPrice k x cache = ((case cache k of Some v \<Rightarrow> v | None \<Rightarrow> NaN), cache)"
  by (simp add: resolveIndexPrice_def)

text \<open>The handler on a tick that passes the guard of line 100.\<close>

lemma processTickerData_accepted:
  assumes "data_symbol data = Some s" and "s \<noteq> []"
    and "data_lastPrice data = lp" and "\<not> isNaN lp"
    and "resolveIndexPrice (Some s) (data_indexPrice data) (lastIndexPrice st) = (ip, cache)"
    and "\<not> isNaN ip"
  shows "processTickerData cfg clk data st =
    (if activeSignals st (Some s) = None
        \<and> js_ge (js_abs (calcSpread lp ip)) (SPREAD_ENTRY_THRESHOLD cfg)
        \<and> js_ge (Num (of_int (at_cooldownOk clk - lastSent st (Some s)))) (SIGNAL_COOLDOWN_MS cfg)
     then st\<lparr>activeSignals := (activeSignals st)(Some s \<mapsto>
                \<lparr>direction = getDirection lp ip, entryTime = at_entryTime clk,
                 entrySpread = calcSpread lp ip\<rparr>),
             lastSignalTime := (lastSignalTime st)(Some s \<mapsto> at_lastSignalTime clk),
             lastIndexPrice := cache,
             outbox := outbox st @ [formatEntry (Some s) (getDirection lp ip) lp ip
                                      (calcSpread lp ip)]\<rparr>
     else (case activeSignals st (Some s) of
             Some sig \<Rightarrow>
               if js_le (js_abs (calcSpread lp ip)) (SPREAD_EXIT_THRESHOLD cfg)
               then st\<lparr>activeSignals := (activeSignals st)(Some s := None),
                       lastIndexPrice := cache,
                       outbox := outbox st @ [formatExit (Some s) (direction sig) lp ip
                                      (calcSpread lp ip) (entrySpread sig)]\<rparr>
               else st\<lparr>lastIndexPrice := cache\<rparr>
           | None \<Rightarrow> st\<lparr>lastIndexPrice := cache\<rparr>))"
  using assms
  by (auto simp add: processTickerData_def Let_def sendTelegram_def lastSent_def split: option.splits)

text \<open>The handler on a tick that the guard of line 100 turns away.\<close>

lemma processTickerData_rejected:
  assumes "falsy_symbol (data_symbol data) \<or> isNaN (data_lastPrice data)
           \<or> isNaN (fst (resolveIndexPrice (data_symbol data) (data_indexPrice data) (lastIndexPrice st)))"
  shows "processTickerData cfg clk data st =
         st\<lparr>lastIndexPrice := snd (resolveIndexPrice (data_symbol data) (data_indexPrice data) (lastIndexPrice st))\<rparr>"
  using assms
  by (auto simp add: processTickerData_def Let_def split: prod.splits)

lemma validTick_accepted:
  assumes "validTick data st s lp ip"
  shows "data_symbol data = Some s" and "s \<noteq> []"
    and "data_lastPrice data = lp" and "\<not> isNaN lp"
    and "resolveIndexPrice (Some s) (data_indexPrice data) (lastIndexPrice st) =
           (ip, snd (resolveIndexPrice (Some s) (data_indexPrice data) (lastIndexPrice st)))"
    and "\<not> isNaN ip"
  using assms by (auto simp add: validTick_def prod_eq_iff js_gt_not_NaN)

lemma processTickerData_cached:
  assumes "\<not> js_gt (data_indexPrice data) (Num 0)" and "lastIndexPrice st (data_symbol data) = Some c"
  shows "processTickerData cfg clk data st = processTickerData cfg clk (data\<lparr>data_indexPrice := c\<rparr>) st"
proof -
  have "resolveIndexPrice (data_symbol data) c (lastIndexPrice st) = (c, lastIndexPrice st)"
    using assms(2) by (auto simp add: resolveIndexPrice_def fun_upd_idem)
  moreover have "resolveIndexPrice (data_symbol data) (data_indexPrice data) (lastIndexPrice st)
                 = (c, lastIndexPrice st)"
    using assms by (simp add: resolve_invalid)
  ultimately show ?thesis
    by (simp add: processTickerData_def)
qed

lemma lastIndexPrice_processTickerData:
  "lastIndexPrice (processTickerData cfg clk data st) =
   snd (resolveIndexPrice (data_symbol data) (data_indexPrice data) (lastIndexPrice st))"
  by (auto simp add: processTickerData_def Let_def sendTelegram_def split: prod.splits option.splits)

lemma calcSpread_falsy:
  "falsy lastPrice \<or> falsy indexPrice \<Longrightarrow> calcSpread lastPrice indexPrice = Num 0"
  by (auto simp add: calcSpread_def)

lemmas handler_defs = processTickerData_def resolveIndexPrice_def getDirection_def
  sendTelegram_def lastSent_def Let_def calcSpread_falsy spread_examples default_thresholds

section \<open>The spread and the direction\<close>

text \<open>
  Claim C3, as the code has it. \<open>calcSpread\<close> returns 0 whenever one of its arguments is
  zero or is not a number (a missing value); for every other pair, negative values
  included, it returns \<open>((traded - reference) / reference) * 100\<close>, computed with the
  program's operators, each of which rounds its result to a double; where the three
  results are doubles as they stand, this is the rational
  \<open>((traded - reference) / reference) * 100\<close>. It is a total function of its two arguments
  and has no other case.
\<close>

theorem calcSpread_zero_or_formula:
  "(falsy lastPrice \<or> falsy indexPrice \<longrightarrow> calcSpread lastPrice indexPrice = Num 0) \<and>
   (\<not> falsy lastPrice \<and> \<not> falsy indexPrice \<longrightarrow>
      calcSpread lastPrice indexPrice =
        js_mul (js_div (js_sub lastPrice indexPrice) indexPrice) (Num 100)) \<and>
   (l \<noteq> 0 \<and> i \<noteq> 0 \<and> isDouble (l - i) \<and> isDouble ((l - i) / i) \<and>
    isDouble (((l - i) / i) * 100) \<longrightarrow>
      calcSpread (Num l) (Num i) = Num (((l - i) / i) * 100))"
proof -
  have "calcSpread (Num l) (Num i) = Num (((l - i) / i) * 100)"
    if "l \<noteq> 0" "i \<noteq> 0" "isDouble (l - i)" "isDouble ((l - i) / i)"
      "isDouble (((l - i) / i) * 100)"
    using that by (simp add: calcSpread_def isDouble_def)
  moreover have "calcSpread lastPrice indexPrice =
        js_mul (js_div (js_sub lastPrice indexPrice) indexPrice) (Num 100)"
    if "\<not> falsy lastPrice" "\<not> falsy indexPrice"
    using that by (cases indexPrice) (auto simp add: calcSpread_def)
  ultimately show ?thesis
    using calcSpread_falsy [of lastPrice indexPrice] by blast
qed

text \<open>
  A missing or zero argument on either side; \<open>99\<close> and \<open>-1\<close> against \<open>100\<close>, where the
  quotient is rounded; and \<open>129\<close> against \<open>128\<close>, where nothing is rounded.
\<close>

theorem calcSpread_zero_or_formula_witness:
  "calcSpread NaN (Num 100) = Num 0 \<and> calcSpread (Num 0) (Num 100) = Num 0 \<and>
   calcSpread (Num 100) NaN = Num 0 \<and> calcSpread (Num 100) (Num 0) = Num 0 \<and>
   calcSpread (Num 99) (Num 100) = js_mul (js_div (js_sub (Num 99) (Num 100)) (Num 100)) (Num 100) \<and>
   calcSpread (Num 99) (Num 100) = Num (- 1) \<and>
   calcSpread (Num (- 1)) (Num 100) = Num (- 101) \<and>
   isDouble (129 - 128) \<and> isDouble ((129 - 128) / 128) \<and> isDouble (((129 - 128) / 128) * 100) \<and>
   calcSpread (Num 129) (Num 128) = Num (25 / 32)"
proof -
  have d: "isDouble (129 - 128)" "isDouble ((129 - 128) / 128)"
    "isDouble (((129 - 128) / 128) * 100)"
    by (simp_all add: isDouble_def toDouble_examples)
  note f = calcSpread_zero_or_formula
  have w1: "calcSpread NaN (Num 100) = Num 0"
    using f [of NaN "Num 100" 1 1, THEN conjunct1] by simp
  have w2: "calcSpread (Num 0) (Num 100) = Num 0"
    using f [of "Num 0" "Num 100" 1 1, THEN conjunct1] by simp
  have w3: "calcSpread (Num 100) NaN = Num 0"
    using f [of "Num 100" NaN 1 1, THEN conjunct1] by simp
  have w4: "calcSpread (Num 100) (Num 0) = Num 0"
    using f [of "Num 100" "Num 0" 1 1, THEN conjunct1] by simp
  have w5: "calcSpread (Num 99) (Num 100) =
      js_mul (js_div (js_sub (Num 99) (Num 100)) (Num 100)) (Num 100)"
    using f [of "Num 99" "Num 100" 1 1, THEN conjunct2, THEN conjunct1] by simp
  have w6: "calcSpread (Num 129) (Num 128) = Num (25 / 32)"
    using f [of NaN NaN 129 128, THEN conjunct2, THEN conjunct2] d by simp
  show ?thesis
    using d w1 w2 w3 w4 w5 w6 spread_ex2 spread_ex5 by blast
qed

text \<open>
  Claim C3 as it is written asks for 0 whenever an argument is non-positive. A traded price
  of \<open>-1\<close> against a reference of \<open>100\<close> is truthy, passes the guard, and gives \<open>-101\<close>.
\<close>

theorem calcSpread_negative_counterexample:
  "(- 1 :: rat) \<le> 0 \<and> calcSpread (Num (- 1)) (Num 100) = Num (- 101) \<and>
   calcSpread (Num (- 1)) (Num 100) \<noteq> Num 0"
  by (simp add: spread_examples)

text \<open>
  Claim C9, as the code has it. For every valid tick whose reference price is finite
  (the prices being doubles or infinite, as \<^verbatim>\<open>parseFloat\<close> returns them) the direction is
  \<open>LONG\<close> exactly when the traded price is below the reference price and \<open>SHORT\<close>
  otherwise, equality included, and the spread, with the rounding of each of its three
  operations, is negative exactly when the direction is \<open>LONG\<close>. These are the direction
  and the spread that the handler records when the tick opens a signal.
\<close>

theorem direction_sign_consistent:
  assumes "validTick data st s lp (Num r)" and "isDouble r"
    and "\<forall>l. lp = Num l \<longrightarrow> isDouble l"
  shows "(getDirection lp (Num r) = LONG \<longleftrightarrow> js_lt lp (Num r)) \<and>
         (getDirection lp (Num r) = SHORT \<longleftrightarrow> \<not> js_lt lp (Num r)) \<and>
         (js_lt (calcSpread lp (Num r)) (Num 0) \<longleftrightarrow> getDirection lp (Num r) = LONG) \<and>
         (\<forall>sig. activeSignals st (Some s) = None \<and>
                activeSignals (processTickerData cfg clk data st) (Some s) = Some sig \<longrightarrow>
                direction sig = getDirection lp (Num r) \<and>
                entrySpread sig = calcSpread lp (Num r))"
proof -
  from assms(1) have pos: "js_gt lp (Num 0)" "0 < r"
    by (simp_all add: validTick_def)
  have sign: "js_lt (calcSpread lp (Num r)) (Num 0) \<longleftrightarrow> js_lt lp (Num r)"
  proof (cases lp)
    case (Num l)
    with pos(1) assms(3) have l: "0 < l" "isDouble l" by simp_all
    show ?thesis
    proof (cases "l < r")
      case True
      with spread_below_zero [OF l(2) assms(2) l(1)] Num show ?thesis by simp
    next
      case False
      with spread_not_below_zero [OF pos(2), of l] Num show ?thesis by simp
    qed
  next
    case PInf
    then show ?thesis using pos(2) by (simp add: calcSpread_def)
  qed (use pos(1) in simp_all)
  have "direction sig = getDirection lp (Num r) \<and> entrySpread sig = calcSpread lp (Num r)"
    if "activeSignals st (Some s) = None"
      and "activeSignals (processTickerData cfg clk data st) (Some s) = Some sig" for sig
    using that processTickerData_accepted [OF validTick_accepted [OF assms(1)], of cfg clk]
    by (auto split: if_splits)
  with sign show ?thesis
    by (auto simp add: getDirection_def)
qed

text \<open>
  The two examples of the specification, \<open>99\<close> and \<open>101\<close> against \<open>100\<close>, and the case of
  equal prices; the first opens a \<open>LONG\<close> signal with spread \<open>-1\<close>.
\<close>

theorem direction_sign_consistent_witness:
  "validTick (tick ''BTCUSDT'' (Num 99) (Num 100)) initialState ''BTCUSDT'' (Num 99) (Num 100) \<and>
   isDouble 99 \<and> isDouble 100 \<and> isDouble 101 \<and>
   getDirection (Num 99) (Num 100) = LONG \<and> calcSpread (Num 99) (Num 100) = Num (- 1) \<and>
   js_lt (calcSpread (Num 99) (Num 100)) (Num 0) \<and>
   activeSignals (processTickerData defaultConfig (atTime 1700000000000)
       (tick ''BTCUSDT'' (Num 99) (Num 100)) initialState) (Some ''BTCUSDT'') =
     Some \<lparr>direction = LONG, entryTime = 1700000000000, entrySpread = Num (- 1)\<rparr> \<and>
   validTick (tick ''BTCUSDT'' (Num 101) (Num 100)) initialState ''BTCUSDT'' (Num 101) (Num 100) \<and>
   getDirection (Num 101) (Num 100) = SHORT \<and> calcSpread (Num 101) (Num 100) = Num 1 \<and>
   \<not> js_lt (calcSpread (Num 101) (Num 100)) (Num 0) \<and>
   validTick (tick ''BTCUSDT'' (Num 100) (Num 100)) initialState ''BTCUSDT'' (Num 100) (Num 100) \<and>
   getDirection (Num 100) (Num 100) = SHORT \<and>
   \<not> js_lt (calcSpread (Num 100) (Num 100)) (Num 0)"
proof -
  have v1: "validTick (tick ''BTCUSDT'' (Num 99) (Num 100)) initialState ''BTCUSDT'' (Num 99) (Num 100)"
    by (simp add: validTick_def resolveIndexPrice_def example_defs)
  have v2: "validTick (tick ''BTCUSDT'' (Num 101) (Num 100)) initialState ''BTCUSDT'' (Num 101) (Num 100)"
    by (simp add: validTick_def resolveIndexPrice_def example_defs)
  have v3: "validTick (tick ''BTCUSDT'' (Num 100) (Num 100)) initialState ''BTCUSDT'' (Num 100) (Num 100)"
    by (simp add: validTick_def resolveIndexPrice_def example_defs)
  have d: "isDouble 99" "isDouble 100" "isDouble 101"
    by (rule double_examples)+
  have a: "\<forall>l. Num 99 = Num l \<longrightarrow> isDouble l" "\<forall>l. Num 101 = Num l \<longrightarrow> isDouble l"
    "\<forall>l. Num 100 = Num l \<longrightarrow> isDouble l"
    using d by simp_all
  have e: "activeSignals (processTickerData defaultConfig (atTime 1700000000000)
       (tick ''BTCUSDT'' (Num 99) (Num 100)) initialState) (Some ''BTCUSDT'') =
     Some \<lparr>direction = LONG, entryTime = 1700000000000, entrySpread = Num (- 1)\<rparr>"
    by (simp add: handler_defs example_defs)
  show ?thesis
    using v1 v2 v3 d e
      direction_sign_consistent [OF v1 d(2) a(1), of defaultConfig "atTime 1700000000000"]
      direction_sign_consistent [OF v2 d(2) a(2), of defaultConfig "atTime 1700000000000"]
      direction_sign_consistent [OF v3 d(2) a(3), of defaultConfig "atTime 1700000000000"]
    by (simp add: spread_examples)
qed

text \<open>
  Claim C9 as it is written covers every valid tick with a positive reference price.
  \<^verbatim>\<open>parseFloat('Infinity')\<close> is \<^verbatim>\<open>Infinity\<close>, which is not \<^verbatim>\<open>NaN\<close> and is positive, so
  the handler caches it and lets the tick through. With traded price 5 the direction is
  \<open>LONG\<close>, and the spread is \<^verbatim>\<open>(5 - Infinity) / Infinity * 100\<close>, that is \<^verbatim>\<open>NaN\<close>, which is
  not negative.
\<close>

theorem infinite_reference_counterexample:
  "validTick (tick ''BTCUSDT'' (Num 5) PInf) initialState ''BTCUSDT'' (Num 5) PInf \<and>
   js_gt PInf (Num 0) \<and>
   lastIndexPrice (processTickerData defaultConfig (atTime 1700000000000)
       (tick ''BTCUSDT'' (Num 5) PInf) initialState) (Some ''BTCUSDT'') = Some PInf \<and>
   getDirection (Num 5) PInf = LONG \<and>
   calcSpread (Num 5) PInf = NaN \<and>
   \<not> js_lt (calcSpread (Num 5) PInf) (Num 0)"
  by (simp add: validTick_def processTickerData_def resolveIndexPrice_def getDirection_def
      calcSpread_def example_defs Let_def)

section \<open>Ticks that the handler turns away\<close>

text \<open>
  Claim C1, as the code has it. For every tick whose symbol is missing or empty, or whose
  traded price is not a number, or whose incoming reference price is not a positive number
  while no reference price is cached for the symbol, handling the tick performs no state
  transition: the signal states, the cooldown timestamps and the texts sent are unchanged.
  A tick whose incoming reference price is not a positive number while a reference price
  is cached for the symbol is handled as a tick that carries the cached price.
\<close>

theorem rejected_tick_no_transition:
  "(falsy_symbol (data_symbol data) \<or> isNaN (data_lastPrice data) \<or>
     (\<not> js_gt (data_indexPrice data) (Num 0) \<and> lastIndexPrice st (data_symbol data) = None)
    \<longrightarrow> activeSignals (processTickerData cfg clk data st) = activeSignals st \<and>
        lastSignalTime (processTickerData cfg clk data st) = lastSignalTime st \<and>
        outbox (processTickerData cfg clk data st) = outbox st) \<and>
   (\<not> js_gt (data_indexPrice data) (Num 0) \<and> lastIndexPrice st (data_symbol data) = Some c
    \<longrightarrow> processTickerData cfg clk data st =
        processTickerData cfg clk (data\<lparr>data_indexPrice := c\<rparr>) st)"
proof -
  have "activeSignals (processTickerData cfg clk data st) = activeSignals st \<and>
        lastSignalTime (processTickerData cfg clk data st) = lastSignalTime st \<and>
        outbox (processTickerData cfg clk data st) = outbox st"
    if "falsy_symbol (data_symbol data) \<or> isNaN (data_lastPrice data) \<or>
        (\<not> js_gt (data_indexPrice data) (Num 0) \<and> lastIndexPrice st (data_symbol data) = None)"
  proof -
    have "falsy_symbol (data_symbol data) \<or> isNaN (data_lastPrice data)
          \<or> isNaN (fst (resolveIndexPrice (data_symbol data) (data_indexPrice data) (lastIndexPrice st)))"
      using that by (auto simp add: resolve_invalid)
    from processTickerData_rejected [OF this, of cfg clk] show ?thesis
      by simp
  qed
  then show ?thesis
    using processTickerData_cached [of data st c cfg clk] by blast
qed

text \<open>
  A tick without a traded price, and a tick with reference price 0 before any reference
  price is known, leave the start-up state without signal, timestamp or text; with
  \<open>100\<close> cached, the tick with reference price 0 is handled as one that carries \<open>100\<close>.
\<close>

theorem rejected_tick_no_transition_witness:
  "isNaN (data_lastPrice (tick ''BTCUSDT'' NaN (Num 100))) \<and>
   outbox (processTickerData defaultConfig (atTime 1700000000000)
            (tick ''BTCUSDT'' NaN (Num 100)) initialState) = [] \<and>
   activeSignals (processTickerData defaultConfig (atTime 1700000000000)
            (tick ''BTCUSDT'' NaN (Num 100)) initialState) (Some ''BTCUSDT'') = None \<and>
   \<not> js_gt (data_indexPrice (tick ''BTCUSDT'' (Num 101) (Num 0))) (Num 0) \<and>
   lastIndexPrice initialState (Some ''BTCUSDT'') = None \<and>
   outbox (processTickerData defaultConfig (atTime 1700000000000)
            (tick ''BTCUSDT'' (Num 101) (Num 0)) initialState) = [] \<and>
   lastSignalTime (processTickerData defaultConfig (atTime 1700000000000)
            (tick ''BTCUSDT'' (Num 101) (Num 0)) initialState) (Some ''BTCUSDT'') = None \<and>
   processTickerData defaultConfig (atTime 1700000000000) (tick ''BTCUSDT'' (Num 101) (Num 0))
       (initialState\<lparr>lastIndexPrice := [Some ''BTCUSDT'' \<mapsto> Num 100]\<rparr>) =
     processTickerData defaultConfig (atTime 1700000000000) (tick ''BTCUSDT'' (Num 101) (Num 100))
       (initialState\<lparr>lastIndexPrice := [Some ''BTCUSDT'' \<mapsto> Num 100]\<rparr>)"
  using rejected_tick_no_transition [of "tick ''BTCUSDT'' NaN (Num 100)"
      initialState defaultConfig "atTime 1700000000000"]
    rejected_tick_no_transition [of "tick ''BTCUSDT'' (Num 101) (Num 0)"
      initialState defaultConfig "atTime 1700000000000"]
    rejected_tick_no_transition [of "tick ''BTCUSDT'' (Num 101) (Num 0)"
      "initialState\<lparr>lastIndexPrice := [Some ''BTCUSDT'' \<mapsto> Num 100]\<rparr>"
      defaultConfig "atTime 1700000000000" "Num 100"]
  by (simp add: initialState_def tick_def)

text \<open>
  Claim C1 as it is written fails on three ticks. A traded price of \<open>-5\<close> is a number, so
  the tick passes the guard, has spread \<open>-105\<close> and opens a signal. A reference price of 0
  is replaced by the cached \<open>100\<close>, and the tick opens a signal with spread 1. A traded
  price of 0 has spread 0, which is below the exit threshold, and closes an open signal.
\<close>

theorem nonpositive_price_counterexample:
  "(- 5 :: rat) \<le> 0 \<and>
   outbox (processTickerData defaultConfig (atTime 1700000000000)
            (tick ''BTCUSDT'' (Num (- 5)) (Num 100)) initialState)
     = [formatEntry (Some ''BTCUSDT'') LONG (Num (- 5)) (Num 100) (Num (- 105))] \<and>
   activeSignals (processTickerData defaultConfig (atTime 1700000000000)
            (tick ''BTCUSDT'' (Num (- 5)) (Num 100)) initialState) (Some ''BTCUSDT'')
     = Some \<lparr>direction = LONG, entryTime = 1700000000000, entrySpread = Num (- 105)\<rparr> \<and>
   lastSignalTime (processTickerData defaultConfig (atTime 1700000000000)
            (tick ''BTCUSDT'' (Num (- 5)) (Num 100)) initialState) (Some ''BTCUSDT'')
     = Some 1700000000000 \<and>
   (0 :: rat) \<le> 0 \<and>
   outbox (processTickerData defaultConfig (atTime 1700000000000)
            (tick ''BTCUSDT'' (Num 101) (Num 0))
            (initialState\<lparr>lastIndexPrice := [Some ''BTCUSDT'' \<mapsto> Num 100]\<rparr>))
     = [formatEntry (Some ''BTCUSDT'') SHORT (Num 101) (Num 100) (Num 1)] \<and>
   outbox (processTickerData defaultConfig (atTime 1700000000000)
            (tick ''BTCUSDT'' (Num 0) (Num 100))
            (initialState\<lparr>activeSignals := [Some ''BTCUSDT'' \<mapsto>
                \<lparr>direction = SHORT, entryTime = 1699999990000, entrySpread = Num 1\<rparr>]\<rparr>))
     = [formatExit (Some ''BTCUSDT'') SHORT (Num 0) (Num 100) (Num 0) (Num 1)] \<and>
   activeSignals (processTickerData defaultConfig (atTime 1700000000000)
            (tick ''BTCUSDT'' (Num 0) (Num 100))
            (initialState\<lparr>activeSignals := [Some ''BTCUSDT'' \<mapsto>
                \<lparr>direction = SHORT, entryTime = 1699999990000, entrySpread = Num 1\<rparr>]\<rparr>))
       (Some ''BTCUSDT'') = None"
  by (simp add: handler_defs example_defs)

section \<open>The cached reference price\<close>

text \<open>
  Claim C7. An incoming reference price that is a positive number is stored as the cached
  value of the symbol and is the price used for the tick; any other incoming value leaves
  the cache as it is and resolves to the cached value, or to \<open>NaN\<close> (absent) when the symbol
  has none. The handler leaves the cache as the resolution made it. A tick whose reference
  price is absent is turned away with the state unchanged. On a tick that is let through,
  the resolved price, not an older cached one, is the price used: the direction and the
  spread are computed from it, the thresholds are tested on that spread, and the text sent
  carries the resolved price and that spread. A tick without reference price that follows a
  tick of the same symbol with the valid reference price \<open>x\<close> resolves to \<open>x\<close> and is handled
  as a tick that carries \<open>x\<close>.
\<close>

theorem index_price_resolution:
  "(js_gt x (Num 0) \<longrightarrow> resolveIndexPrice k x cache = (x, cache(k \<mapsto> x))) \<and>
   (\<not> js_gt x (Num 0) \<longrightarrow>
      resolveIndexPrice k x cache = ((case cache k of Some v \<Rightarrow> v | None \<Rightarrow> NaN), cache)) \<and>
   lastIndexPrice (processTickerData cfg clk data st) =
      snd (resolveIndexPrice (data_symbol data) (data_indexPrice data) (lastIndexPrice st)) \<and>
   (\<not> js_gt (data_indexPrice data) (Num 0) \<and> lastIndexPrice st (data_symbol data) = None \<longrightarrow>
      processTickerData cfg clk data st = st) \<and>
   (data_symbol data = Some s \<and> s \<noteq> [] \<and> \<not> isNaN (data_lastPrice data) \<and>
    resolveIndexPrice (Some s) (data_indexPrice data) (lastIndexPrice st) = (ip, cache') \<and>
    \<not> isNaN ip \<longrightarrow>
      processTickerData cfg clk data st =
        (if activeSignals st (Some s) = None
            \<and> js_ge (js_abs (calcSpread (data_lastPrice data) ip)) (SPREAD_ENTRY_THRESHOLD cfg)
            \<and> js_ge (Num (of_int (at_cooldownOk clk - lastSent st (Some s))))
                     (SIGNAL_COOLDOWN_MS cfg)
         then st\<lparr>activeSignals := (activeSignals st)(Some s \<mapsto>
                    \<lparr>direction = getDirection (data_lastPrice data) ip,
                     entryTime = at_entryTime clk,
                     entrySpread = calcSpread (data_lastPrice data) ip\<rparr>),
                 lastSignalTime := (lastSignalTime st)(Some s \<mapsto> at_lastSignalTime clk),
                 lastIndexPrice := cache',
                 outbox := outbox st @
                   [formatEntry (Some s) (getDirection (data_lastPrice data) ip)
                      (data_lastPrice data) ip (calcSpread (data_lastPrice data) ip)]\<rparr>
         else (case activeSignals st (Some s) of
                 Some sig \<Rightarrow>
                   if js_le (js_abs (calcSpread (data_lastPrice data) ip)) (SPREAD_EXIT_THRESHOLD cfg)
                   then st\<lparr>activeSignals := (activeSignals st)(Some s := None),
                           lastIndexPrice := cache',
                           outbox := outbox st @
                             [formatExit (Some s) (direction sig) (data_lastPrice data) ip
                                (calcSpread (data_lastPrice data) ip) (entrySpread sig)]\<rparr>
                   else st\<lparr>lastIndexPrice := cache'\<rparr>
               | None \<Rightarrow> st\<lparr>lastIndexPrice := cache'\<rparr>))) \<and>
   (\<not> js_gt (data_indexPrice data) (Num 0) \<and> lastIndexPrice st (data_symbol data) = Some c \<longrightarrow>
      processTickerData cfg clk data st = processTickerData cfg clk (data\<lparr>data_indexPrice := c\<rparr>) st) \<and>
   (js_gt (data_indexPrice prior) (Num 0) \<and> data_symbol prior = data_symbol data \<and>
    \<not> js_gt (data_indexPrice data) (Num 0) \<longrightarrow>
      fst (resolveIndexPrice (data_symbol data) (data_indexPrice data)
             (lastIndexPrice (processTickerData cfg clk' prior st))) = data_indexPrice prior \<and>
      processTickerData cfg clk data (processTickerData cfg clk' prior st) =
      processTickerData cfg clk (data\<lparr>data_indexPrice := data_indexPrice prior\<rparr>)
        (processTickerData cfg clk' prior st))"
proof -
  have absent: "processTickerData cfg clk data st = st"
    if "\<not> js_gt (data_indexPrice data) (Num 0)" and "lastIndexPrice st (data_symbol data) = None"
  proof -
    have "resolveIndexPrice (data_symbol data) (data_indexPrice data) (lastIndexPrice st)
          = (NaN, lastIndexPrice st)"
      using that by (simp add: resolve_invalid)
    then show ?thesis
      using processTickerData_rejected [of data st cfg clk] by simp
  qed
  have follows: "fst (resolveIndexPrice (data_symbol data) (data_indexPrice data)
             (lastIndexPrice (processTickerData cfg clk' prior st))) = data_indexPrice prior \<and>
      processTickerData cfg clk data (processTickerData cfg clk' prior st) =
      processTickerData cfg clk (data\<lparr>data_indexPrice := data_indexPrice prior\<rparr>)
        (processTickerData cfg clk' prior st)"
    if "js_gt (data_indexPrice prior) (Num 0)" and "data_symbol prior = data_symbol data"
      and "\<not> js_gt (data_indexPrice data) (Num 0)"
  proof -
    have cached: "lastIndexPrice (processTickerData cfg clk' prior st) (data_symbol data)
        = Some (data_indexPrice prior)"
      using that by (simp add: lastIndexPrice_processTickerData resolve_valid)
    from processTickerData_cached [OF that(3) cached] cached that(3) show ?thesis
      by (simp add: resolve_invalid)
  qed
  note used = processTickerData_accepted [of data s "data_lastPrice data" st ip cache' cfg clk]
  show ?thesis
    using resolve_valid [of x k cache] resolve_invalid [of x k cache]
      lastIndexPrice_processTickerData [of cfg clk data st] absent follows used
      processTickerData_cached [of data st c cfg clk]
    by blast
qed

text \<open>
  With \<open>50\<close> cached for \<open>BTCUSDT\<close>, a tick at \<open>101\<close> that carries the reference price \<open>100\<close>
  is priced against \<open>100\<close>: the text has reference price \<open>100\<close> and spread 1, and \<open>100\<close> is
  cached. A first tick at \<open>100\<close> with reference price \<open>100\<close> stores the reference price and
  sends nothing; the next tick, at \<open>101\<close> and without reference price, opens a \<open>SHORT\<close>
  signal with the cached \<open>100\<close> and spread 1. Without the first tick the second one is
  turned away.
\<close>

theorem index_price_resolution_witness:
  "resolveIndexPrice (Some ''BTCUSDT'') (Num 100) [Some ''BTCUSDT'' \<mapsto> Num 50] =
     (Num 100, [Some ''BTCUSDT'' \<mapsto> Num 100]) \<and>
   outbox (processTickerData defaultConfig (atTime 1700000000000)
     (tick ''BTCUSDT'' (Num 101) (Num 100))
     (initialState\<lparr>lastIndexPrice := [Some ''BTCUSDT'' \<mapsto> Num 50]\<rparr>)) =
     [formatEntry (Some ''BTCUSDT'') SHORT (Num 101) (Num 100) (Num 1)] \<and>
   activeSignals (processTickerData defaultConfig (atTime 1700000000000)
     (tick ''BTCUSDT'' (Num 101) (Num 100))
     (initialState\<lparr>lastIndexPrice := [Some ''BTCUSDT'' \<mapsto> Num 50]\<rparr>)) (Some ''BTCUSDT'') =
     Some \<lparr>direction = SHORT, entryTime = 1700000000000, entrySpread = Num 1\<rparr> \<and>
   lastIndexPrice (processTickerData defaultConfig (atTime 1700000000000)
     (tick ''BTCUSDT'' (Num 101) (Num 100))
     (initialState\<lparr>lastIndexPrice := [Some ''BTCUSDT'' \<mapsto> Num 50]\<rparr>)) (Some ''BTCUSDT'') =
     Some (Num 100) \<and>
   resolveIndexPrice (Some ''BTCUSDT'') NaN [Some ''BTCUSDT'' \<mapsto> Num 100] =
     (Num 100, [Some ''BTCUSDT'' \<mapsto> Num 100]) \<and>
   resolveIndexPrice (Some ''BTCUSDT'') NaN Map.empty = (NaN, Map.empty) \<and>
   processTickerData defaultConfig (atTime 1700000001000) (tick ''BTCUSDT'' (Num 101) NaN)
     initialState = initialState \<and>
   lastIndexPrice (processTickerData defaultConfig (atTime 1700000000000)
     (tick ''BTCUSDT'' (Num 100) (Num 100)) initialState) (Some ''BTCUSDT'') = Some (Num 100) \<and>
   outbox (processTickerData defaultConfig (atTime 1700000000000)
     (tick ''BTCUSDT'' (Num 100) (Num 100)) initialState) = [] \<and>
   fst (resolveIndexPrice (Some ''BTCUSDT'') NaN
     (lastIndexPrice (processTickerData defaultConfig (atTime 1700000000000)
       (tick ''BTCUSDT'' (Num 100) (Num 100)) initialState))) = Num 100 \<and>
   outbox (processTickerData defaultConfig (atTime 1700000001000) (tick ''BTCUSDT'' (Num 101) NaN)
     (processTickerData defaultConfig (atTime 1700000000000)
       (tick ''BTCUSDT'' (Num 100) (Num 100)) initialState)) =
     [formatEntry (Some ''BTCUSDT'') SHORT (Num 101) (Num 100) (Num 1)]"
proof -
  let ?stale = "initialState\<lparr>lastIndexPrice := [Some ''BTCUSDT'' \<mapsto> Num 50]\<rparr>"
  let ?first = "processTickerData defaultConfig (atTime 1700000000000)
       (tick ''BTCUSDT'' (Num 100) (Num 100)) initialState"
  note r = index_price_resolution
  have res: "resolveIndexPrice (Some ''BTCUSDT'') (Num 100) (lastIndexPrice ?stale) =
      (Num 100, [Some ''BTCUSDT'' \<mapsto> Num 100])"
    using r [of "Num 100" "Some ''BTCUSDT''" "[Some ''BTCUSDT'' \<mapsto> Num 50]", THEN conjunct1]
    by (simp add: initialState_def)
  have w1: "resolveIndexPrice (Some ''BTCUSDT'') (Num 100) [Some ''BTCUSDT'' \<mapsto> Num 50] =
     (Num 100, [Some ''BTCUSDT'' \<mapsto> Num 100])"
    using res by (simp add: initialState_def)
  have used: "processTickerData defaultConfig (atTime 1700000000000)
        (tick ''BTCUSDT'' (Num 101) (Num 100)) ?stale =
      ?stale\<lparr>activeSignals := (activeSignals ?stale)(Some ''BTCUSDT'' \<mapsto>
                \<lparr>direction = SHORT, entryTime = 1700000000000, entrySpread = Num 1\<rparr>),
             lastSignalTime := (lastSignalTime ?stale)(Some ''BTCUSDT'' \<mapsto> 1700000000000),
             lastIndexPrice := [Some ''BTCUSDT'' \<mapsto> Num 100],
             outbox := outbox ?stale @
               [formatEntry (Some ''BTCUSDT'') SHORT (Num 101) (Num 100) (Num 1)]\<rparr>"
    using r [where data = "tick ''BTCUSDT'' (Num 101) (Num 100)" and st = ?stale
        and s = "''BTCUSDT''" and ip = "Num 100" and cache' = "[Some ''BTCUSDT'' \<mapsto> Num 100]"
        and cfg = defaultConfig and clk = "atTime 1700000000000",
        THEN conjunct2, THEN conjunct2, THEN conjunct2, THEN conjunct2, THEN conjunct1]
      res
    by (simp add: tick_def initialState_def defaultConfig_def atTime_def lastSent_def
        getDirection_def spread_examples default_thresholds)
  have w2: "outbox (processTickerData defaultConfig (atTime 1700000000000)
      (tick ''BTCUSDT'' (Num 101) (Num 100)) ?stale) =
     [formatEntry (Some ''BTCUSDT'') SHORT (Num 101) (Num 100) (Num 1)]"
    and w3: "activeSignals (processTickerData defaultConfig (atTime 1700000000000)
      (tick ''BTCUSDT'' (Num 101) (Num 100)) ?stale) (Some ''BTCUSDT'') =
     Some \<lparr>direction = SHORT, entryTime = 1700000000000, entrySpread = Num 1\<rparr>"
    and w4: "lastIndexPrice (processTickerData defaultConfig (atTime 1700000000000)
      (tick ''BTCUSDT'' (Num 101) (Num 100)) ?stale) (Some ''BTCUSDT'') = Some (Num 100)"
    unfolding used by (simp_all add: initialState_def)
  have w5: "resolveIndexPrice (Some ''BTCUSDT'') NaN [Some ''BTCUSDT'' \<mapsto> Num 100] =
     (Num 100, [Some ''BTCUSDT'' \<mapsto> Num 100])"
    using r [of NaN "Some ''BTCUSDT''" "[Some ''BTCUSDT'' \<mapsto> Num 100]", THEN conjunct2, THEN conjunct1]
    by simp
  have w6: "resolveIndexPrice (Some ''BTCUSDT'') NaN Map.empty = (NaN, Map.empty)"
    using r [of NaN "Some ''BTCUSDT''" Map.empty, THEN conjunct2, THEN conjunct1]
    by simp
  have w7: "processTickerData defaultConfig (atTime 1700000001000) (tick ''BTCUSDT'' (Num 101) NaN)
     initialState = initialState"
    using r [where data = "tick ''BTCUSDT'' (Num 101) NaN" and st = initialState
        and cfg = defaultConfig and clk = "atTime 1700000001000",
        THEN conjunct2, THEN conjunct2, THEN conjunct2, THEN conjunct1]
    by (simp add: tick_def initialState_def)
  have w8: "lastIndexPrice ?first (Some ''BTCUSDT'') = Some (Num 100)"
    and w9: "outbox ?first = []"
    by (simp_all add: handler_defs example_defs)
  note after = r [where data = "tick ''BTCUSDT'' (Num 101) NaN"
        and prior = "tick ''BTCUSDT'' (Num 100) (Num 100)" and st = initialState
        and cfg = defaultConfig and clk = "atTime 1700000001000" and clk' = "atTime 1700000000000",
        THEN conjunct2, THEN conjunct2, THEN conjunct2, THEN conjunct2, THEN conjunct2,
        THEN conjunct2]
  have hyp: "js_gt (data_indexPrice (tick ''BTCUSDT'' (Num 100) (Num 100))) (Num 0) \<and>
      data_symbol (tick ''BTCUSDT'' (Num 100) (Num 100)) = data_symbol (tick ''BTCUSDT'' (Num 101) NaN) \<and>
      \<not> js_gt (data_indexPrice (tick ''BTCUSDT'' (Num 101) NaN)) (Num 0)"
    by (simp add: tick_def)
  have w10: "fst (resolveIndexPrice (Some ''BTCUSDT'') NaN (lastIndexPrice ?first)) = Num 100"
    using after [rule_format, OF hyp, THEN conjunct1] by (simp add: tick_def)
  have same: "processTickerData defaultConfig (atTime 1700000001000) (tick ''BTCUSDT'' (Num 101) NaN)
      ?first =
    processTickerData defaultConfig (atTime 1700000001000) (tick ''BTCUSDT'' (Num 101) (Num 100))
      ?first"
    using after [rule_format, OF hyp, THEN conjunct2] by (simp add: tick_def)
  have w11: "outbox (processTickerData defaultConfig (atTime 1700000001000)
      (tick ''BTCUSDT'' (Num 101) NaN) ?first) =
     [formatEntry (Some ''BTCUSDT'') SHORT (Num 101) (Num 100) (Num 1)]"
    unfolding same by (simp add: handler_defs example_defs)
  show ?thesis
    using w1 w2 w3 w4 w5 w6 w7 w8 w9 w10 w11 by blast
qed

section \<open>Entry and exit\<close>

text \<open>
  Claim C5, as the code has it. For every valid tick of a symbol that has no open signal:
  when the absolute spread is at least the entry threshold and the clock reading minus the
  last signal time is at least the cooldown, where a missing cooldown record is read as the
  time 0, the handler sends the Entry text, opens the signal with the direction, the spread
  and the clock reading of the tick, and sets the cooldown timestamp to the clock reading;
  in every other case it sends nothing and leaves signals and timestamps as they are.
\<close>

theorem entry_from_idle:
  assumes "validTick data st s lp ip" and "activeSignals st (Some s) = None"
  shows
   "(js_ge (js_abs (calcSpread lp ip)) (SPREAD_ENTRY_THRESHOLD cfg) \<and>
     js_ge (Num (of_int (at_cooldownOk clk -
               (case lastSignalTime st (Some s) of None \<Rightarrow> 0 | Some t \<Rightarrow> t))))
           (SIGNAL_COOLDOWN_MS cfg)
     \<longrightarrow> outbox (processTickerData cfg clk data st) =
           outbox st @ [formatEntry (Some s) (getDirection lp ip) lp ip
                          (calcSpread lp ip)] \<and>
         activeSignals (processTickerData cfg clk data st) (Some s) =
           Some \<lparr>direction = getDirection lp ip, entryTime = at_entryTime clk,
                 entrySpread = calcSpread lp ip\<rparr> \<and>
         lastSignalTime (processTickerData cfg clk data st) (Some s) = Some (at_lastSignalTime clk)) \<and>
    (\<not> (js_ge (js_abs (calcSpread lp ip)) (SPREAD_ENTRY_THRESHOLD cfg) \<and>
        js_ge (Num (of_int (at_cooldownOk clk -
               (case lastSignalTime st (Some s) of None \<Rightarrow> 0 | Some t \<Rightarrow> t))))
           (SIGNAL_COOLDOWN_MS cfg))
     \<longrightarrow> outbox (processTickerData cfg clk data st) = outbox st \<and>
         activeSignals (processTickerData cfg clk data st) = activeSignals st \<and>
         lastSignalTime (processTickerData cfg clk data st) = lastSignalTime st)"
proof -
  have "lastSent st (Some s) = (case lastSignalTime st (Some s) of None \<Rightarrow> 0 | Some t \<Rightarrow> t)"
    by (simp add: lastSent_def split: option.splits)
  then show ?thesis
    using processTickerData_accepted [OF validTick_accepted [OF assms(1)], of cfg clk] assms(2)
    by auto
qed

text \<open>
  With the default settings: from the start-up state a tick at \<open>101\<close> against \<open>100\<close>
  opens a \<open>SHORT\<close> signal; the same tick 30 seconds after an Entry of the symbol, and a tick
  at \<open>100.5\<close>, with spread \<open>0.5\<close>, change nothing.
\<close>

theorem entry_from_idle_witness:
  "validTick (tick ''BTCUSDT'' (Num 101) (Num 100)) initialState ''BTCUSDT'' (Num 101) (Num 100) \<and>
   activeSignals initialState (Some ''BTCUSDT'') = None \<and>
   outbox (processTickerData defaultConfig (atTime 1700000000000)
       (tick ''BTCUSDT'' (Num 101) (Num 100)) initialState) =
     [formatEntry (Some ''BTCUSDT'') SHORT (Num 101) (Num 100) (Num 1)] \<and>
   activeSignals (processTickerData defaultConfig (atTime 1700000000000)
       (tick ''BTCUSDT'' (Num 101) (Num 100)) initialState) (Some ''BTCUSDT'') =
     Some \<lparr>direction = SHORT, entryTime = 1700000000000, entrySpread = Num 1\<rparr> \<and>
   lastSignalTime (processTickerData defaultConfig (atTime 1700000000000)
       (tick ''BTCUSDT'' (Num 101) (Num 100)) initialState) (Some ''BTCUSDT'') =
     Some 1700000000000 \<and>
   validTick (tick ''BTCUSDT'' (Num 101) (Num 100))
     (initialState\<lparr>lastSignalTime := [Some ''BTCUSDT'' \<mapsto> 1699999970000]\<rparr>) ''BTCUSDT'' (Num 101) (Num 100) \<and>
   outbox (processTickerData defaultConfig (atTime 1700000000000)
       (tick ''BTCUSDT'' (Num 101) (Num 100))
       (initialState\<lparr>lastSignalTime := [Some ''BTCUSDT'' \<mapsto> 1699999970000]\<rparr>)) = [] \<and>
   activeSignals (processTickerData defaultConfig (atTime 1700000000000)
       (tick ''BTCUSDT'' (Num 101) (Num 100))
       (initialState\<lparr>lastSignalTime := [Some ''BTCUSDT'' \<mapsto> 1699999970000]\<rparr>))
       (Some ''BTCUSDT'') = None \<and>
   validTick (tick ''BTCUSDT'' (Num (201 / 2)) (Num 100)) initialState ''BTCUSDT'' (Num (201 / 2)) (Num 100) \<and>
   outbox (processTickerData defaultConfig (atTime 1700000000000)
       (tick ''BTCUSDT'' (Num (201 / 2)) (Num 100)) initialState) = [] \<and>
   lastSignalTime (processTickerData defaultConfig (atTime 1700000000000)
       (tick ''BTCUSDT'' (Num (201 / 2)) (Num 100)) initialState) (Some ''BTCUSDT'') = None"
proof -
  have v1: "validTick (tick ''BTCUSDT'' (Num 101) (Num 100)) initialState ''BTCUSDT'' (Num 101) (Num 100)"
    by (simp add: validTick_def resolveIndexPrice_def example_defs)
  have v2: "validTick (tick ''BTCUSDT'' (Num 101) (Num 100))
     (initialState\<lparr>lastSignalTime := [Some ''BTCUSDT'' \<mapsto> 1699999970000]\<rparr>) ''BTCUSDT'' (Num 101) (Num 100)"
    by (simp add: validTick_def resolveIndexPrice_def example_defs)
  have v3: "validTick (tick ''BTCUSDT'' (Num (201 / 2)) (Num 100)) initialState
     ''BTCUSDT'' (Num (201 / 2)) (Num 100)"
    by (simp add: validTick_def resolveIndexPrice_def example_defs)
  show ?thesis
    using v1 v2 v3
      entry_from_idle [OF v1, of defaultConfig "atTime 1700000000000"]
      entry_from_idle [OF v2, of defaultConfig "atTime 1700000000000"]
      entry_from_idle [OF v3, of defaultConfig "atTime 1700000000000"]
    by (simp add: spread_examples default_thresholds getDirection_def defaultConfig_def
        initialState_def atTime_def)
qed

text \<open>
  Claim C5 as it is written lets a missing cooldown record satisfy the cooldown condition.
  With a cooldown of \<open>2000000000000\<close> ms and the clock at \<open>1700000000000\<close> ms, a valid tick
  with spread 1 of a symbol that has no open signal and no cooldown record sends nothing
  and opens no signal: the record is read as 0, and \<open>1700000000000 - 0\<close> is below the
  cooldown.
\<close>

theorem missing_cooldown_counterexample:
  "validTick (tick ''BTCUSDT'' (Num 101) (Num 100)) initialState ''BTCUSDT'' (Num 101) (Num 100) \<and>
   activeSignals initialState (Some ''BTCUSDT'') = None \<and>
   lastSignalTime initialState (Some ''BTCUSDT'') = None \<and>
   js_ge (js_abs (calcSpread (Num 101) (Num 100)))
     (SPREAD_ENTRY_THRESHOLD (defaultConfig\<lparr>SIGNAL_COOLDOWN_MS := Num 2000000000000\<rparr>)) \<and>
   outbox (processTickerData (defaultConfig\<lparr>SIGNAL_COOLDOWN_MS := Num 2000000000000\<rparr>)
       (atTime 1700000000000) (tick ''BTCUSDT'' (Num 101) (Num 100)) initialState) = [] \<and>
   activeSignals (processTickerData (defaultConfig\<lparr>SIGNAL_COOLDOWN_MS := Num 2000000000000\<rparr>)
       (atTime 1700000000000) (tick ''BTCUSDT'' (Num 101) (Num 100)) initialState)
       (Some ''BTCUSDT'') = None \<and>
   lastSignalTime (processTickerData (defaultConfig\<lparr>SIGNAL_COOLDOWN_MS := Num 2000000000000\<rparr>)
       (atTime 1700000000000) (tick ''BTCUSDT'' (Num 101) (Num 100)) initialState)
       (Some ''BTCUSDT'') = None"
  by (simp add: validTick_def handler_defs example_defs)

text \<open>
  Claim C6. For every valid tick of a symbol that has an open signal: when the absolute
  spread is at most the exit threshold, the handler sends the Exit text, which carries the
  spread recorded at entry and the spread of the tick, and removes the signal; otherwise it
  sends nothing and keeps the signals. In both cases the cooldown timestamps are unchanged,
  and neither the clock, nor the cooldown setting, nor the cooldown timestamps have a part
  in the outcome.
\<close>

theorem exit_from_active:
  assumes "validTick data st s lp ip" and "activeSignals st (Some s) = Some sig"
  shows
   "(js_le (js_abs (calcSpread lp ip)) (SPREAD_EXIT_THRESHOLD cfg)
     \<longrightarrow> outbox (processTickerData cfg clk data st) =
           outbox st @ [formatExit (Some s) (direction sig) lp ip
                          (calcSpread lp ip) (entrySpread sig)] \<and>
         activeSignals (processTickerData cfg clk data st) = (activeSignals st)(Some s := None)) \<and>
    (\<not> js_le (js_abs (calcSpread lp ip)) (SPREAD_EXIT_THRESHOLD cfg)
     \<longrightarrow> outbox (processTickerData cfg clk data st) = outbox st \<and>
         activeSignals (processTickerData cfg clk data st) = activeSignals st) \<and>
    lastSignalTime (processTickerData cfg clk data st) = lastSignalTime st \<and>
    processTickerData (cfg\<lparr>SIGNAL_COOLDOWN_MS := cooldown\<rparr>) clk' data (st\<lparr>lastSignalTime := stamps\<rparr>) =
      (processTickerData cfg clk data st)\<lparr>lastSignalTime := stamps\<rparr>"
proof -
  have v: "validTick data (st\<lparr>lastSignalTime := stamps\<rparr>) s lp ip"
    using assms(1) by (simp add: validTick_def)
  show ?thesis
    using processTickerData_accepted [OF validTick_accepted [OF assms(1)], of cfg clk]
      processTickerData_accepted [OF validTick_accepted [OF v],
        of "cfg\<lparr>SIGNAL_COOLDOWN_MS := cooldown\<rparr>" clk'] assms(2)
    by auto
qed

text \<open>
  A \<open>SHORT\<close> signal of \<open>BTCUSDT\<close> was opened at spread 1. Ten seconds later, inside the
  cooldown of 60 seconds, a tick at \<open>100.375\<close>, with spread \<open>0.375\<close>, closes it and the Exit text carries
  both spreads; a tick at \<open>100.625\<close>, with spread \<open>0.625\<close>, changes nothing.
\<close>

theorem exit_from_active_witness:
  "validTick (tick ''BTCUSDT'' (Num (803 / 8)) (Num 100))
     (stateWithSignal ''BTCUSDT'' \<lparr>direction = SHORT, entryTime = 1699999990000, entrySpread = Num 1\<rparr>
        1699999990000) ''BTCUSDT'' (Num (803 / 8)) (Num 100) \<and>
   activeSignals
     (stateWithSignal ''BTCUSDT'' \<lparr>direction = SHORT, entryTime = 1699999990000, entrySpread = Num 1\<rparr>
        1699999990000) (Some ''BTCUSDT'') =
     Some \<lparr>direction = SHORT, entryTime = 1699999990000, entrySpread = Num 1\<rparr> \<and>
   outbox (processTickerData defaultConfig (atTime 1700000000000)
     (tick ''BTCUSDT'' (Num (803 / 8)) (Num 100))
     (stateWithSignal ''BTCUSDT'' \<lparr>direction = SHORT, entryTime = 1699999990000, entrySpread = Num 1\<rparr>
        1699999990000)) =
     [formatExit (Some ''BTCUSDT'') SHORT (Num (803 / 8)) (Num 100) (Num (3 / 8)) (Num 1)] \<and>
   activeSignals (processTickerData defaultConfig (atTime 1700000000000)
     (tick ''BTCUSDT'' (Num (803 / 8)) (Num 100))
     (stateWithSignal ''BTCUSDT'' \<lparr>direction = SHORT, entryTime = 1699999990000, entrySpread = Num 1\<rparr>
        1699999990000)) (Some ''BTCUSDT'') = None \<and>
   lastSignalTime (processTickerData defaultConfig (atTime 1700000000000)
     (tick ''BTCUSDT'' (Num (803 / 8)) (Num 100))
     (stateWithSignal ''BTCUSDT'' \<lparr>direction = SHORT, entryTime = 1699999990000, entrySpread = Num 1\<rparr>
        1699999990000)) (Some ''BTCUSDT'') = Some 1699999990000 \<and>
   validTick (tick ''BTCUSDT'' (Num (805 / 8)) (Num 100))
     (stateWithSignal ''BTCUSDT'' \<lparr>direction = SHORT, entryTime = 1699999990000, entrySpread = Num 1\<rparr>
        1699999990000) ''BTCUSDT'' (Num (805 / 8)) (Num 100) \<and>
   outbox (processTickerData defaultConfig (atTime 1700000000000)
     (tick ''BTCUSDT'' (Num (805 / 8)) (Num 100))
     (stateWithSignal ''BTCUSDT'' \<lparr>direction = SHORT, entryTime = 1699999990000, entrySpread = Num 1\<rparr>
        1699999990000)) = [] \<and>
   activeSignals (processTickerData defaultConfig (atTime 1700000000000)
     (tick ''BTCUSDT'' (Num (805 / 8)) (Num 100))
     (stateWithSignal ''BTCUSDT'' \<lparr>direction = SHORT, entryTime = 1699999990000, entrySpread = Num 1\<rparr>
        1699999990000)) (Some ''BTCUSDT'') =
     Some \<lparr>direction = SHORT, entryTime = 1699999990000, entrySpread = Num 1\<rparr> \<and>
   outbox (processTickerData (defaultConfig\<lparr>SIGNAL_COOLDOWN_MS := Num 3600000\<rparr>)
     (atTime 1700000000001) (tick ''BTCUSDT'' (Num (803 / 8)) (Num 100))
     ((stateWithSignal ''BTCUSDT'' \<lparr>direction = SHORT, entryTime = 1699999990000, entrySpread = Num 1\<rparr>
        1699999990000)\<lparr>lastSignalTime := [Some ''BTCUSDT'' \<mapsto> 1700000000000]\<rparr>)) =
     [formatExit (Some ''BTCUSDT'') SHORT (Num (803 / 8)) (Num 100) (Num (3 / 8)) (Num 1)]"
proof -
  let ?st = "stateWithSignal ''BTCUSDT''
    \<lparr>direction = SHORT, entryTime = 1699999990000, entrySpread = Num 1\<rparr> 1699999990000"
  have v1: "validTick (tick ''BTCUSDT'' (Num (803 / 8)) (Num 100)) ?st ''BTCUSDT'' (Num (803 / 8)) (Num 100)"
    by (simp add: validTick_def resolveIndexPrice_def example_defs)
  have v2: "validTick (tick ''BTCUSDT'' (Num (805 / 8)) (Num 100)) ?st ''BTCUSDT'' (Num (805 / 8)) (Num 100)"
    by (simp add: validTick_def resolveIndexPrice_def example_defs)
  have a: "activeSignals ?st (Some ''BTCUSDT'') =
     Some \<lparr>direction = SHORT, entryTime = 1699999990000, entrySpread = Num 1\<rparr>"
    by (simp add: example_defs)
  note closes = exit_from_active [OF v1 a, of defaultConfig "atTime 1700000000000"]
  note keeps = exit_from_active [OF v2 a, of defaultConfig "atTime 1700000000000"]
  have indep: "outbox (processTickerData (defaultConfig\<lparr>SIGNAL_COOLDOWN_MS := Num 3600000\<rparr>)
     (atTime 1700000000001) (tick ''BTCUSDT'' (Num (803 / 8)) (Num 100))
     (?st\<lparr>lastSignalTime := [Some ''BTCUSDT'' \<mapsto> 1700000000000]\<rparr>)) =
     outbox (processTickerData defaultConfig (atTime 1700000000000)
       (tick ''BTCUSDT'' (Num (803 / 8)) (Num 100)) ?st)"
    unfolding closes [THEN conjunct2, THEN conjunct2, THEN conjunct2] by simp
  show ?thesis
    unfolding indep
    using v1 v2 a closes [THEN conjunct1] closes [THEN conjunct2, THEN conjunct2, THEN conjunct1]
      keeps [THEN conjunct2, THEN conjunct1]
    by (simp add: spread_examples default_thresholds defaultConfig_def stateWithSignal_def
        initialState_def)
qed

text \<open>
  Claim C10. Whatever the tick and the state, the handler sends at most one text. Every
  Exit text it sends is for the symbol of the tick, which had an open signal before the
  tick and has none after it, and the text carries the direction and the entry spread
  recorded in that signal. The record of an open signal is never changed: after a tick it
  is the same record or it is gone. A signal that a tick opens records the direction of
  that tick. So the direction in an Exit text is the direction of the tick that entered
  the signal, not the direction of the tick that closes it. The two may differ: with the
  default settings a signal opened \<open>LONG\<close> at \<open>99\<close> against \<open>100\<close> is closed by a tick at
  \<open>100.125\<close> against \<open>100\<close>, whose own direction is \<open>SHORT\<close>, and the Exit text says \<open>LONG\<close>.
\<close>

theorem exit_reports_entry_direction:
  "(\<exists>new. outbox (processTickerData cfg clk data st) = outbox st @ new \<and> length new \<le> 1 \<and>
      (\<forall>k d lp ip sp es. formatExit k d lp ip sp es \<in> set new \<longrightarrow>
          k = data_symbol data \<and>
          (\<exists>sig. activeSignals st k = Some sig \<and> d = direction sig \<and> es = entrySpread sig) \<and>
          activeSignals (processTickerData cfg clk data st) k = None)) \<and>
   (\<forall>k sig. activeSignals st k = Some sig \<longrightarrow>
      activeSignals (processTickerData cfg clk data st) k = Some sig \<or>
      activeSignals (processTickerData cfg clk data st) k = None) \<and>
   (\<forall>k sig. activeSignals st k = None \<and>
            activeSignals (processTickerData cfg clk data st) k = Some sig \<longrightarrow>
      k = data_symbol data \<and>
      direction sig = getDirection (data_lastPrice data)
        (fst (resolveIndexPrice (data_symbol data) (data_indexPrice data) (lastIndexPrice st)))) \<and>
   outbox (processTicks defaultConfig
      [(atTime 1700000000000, tick ''BTCUSDT'' (Num 99) (Num 100)),
       (atTime 1700000005000, tick ''BTCUSDT'' (Num (801 / 8)) (Num 100))]
      initialState) =
      [formatEntry (Some ''BTCUSDT'') LONG (Num 99) (Num 100) (Num (- 1)),
       formatExit (Some ''BTCUSDT'') LONG (Num (801 / 8)) (Num 100) (Num (1 / 8)) (Num (- 1))] \<and>
   getDirection (Num (801 / 8)) (Num 100) = SHORT"
proof -
  let ?st' = "processTickerData cfg clk data st"
  obtain ip cache where res:
    "resolveIndexPrice (data_symbol data) (data_indexPrice data) (lastIndexPrice st) = (ip, cache)"
    by (cases "resolveIndexPrice (data_symbol data) (data_indexPrice data) (lastIndexPrice st)")
  have sent: "\<exists>new. outbox ?st' = outbox st @ new \<and> length new \<le> 1 \<and>
      (\<forall>k d lp ip sp es. formatExit k d lp ip sp es \<in> set new \<longrightarrow>
          k = data_symbol data \<and>
          (\<exists>sig. activeSignals st k = Some sig \<and> d = direction sig \<and> es = entrySpread sig) \<and>
          activeSignals ?st' k = None)"
  proof (cases "activeSignals st (data_symbol data)")
    case None
    show ?thesis
    proof (cases "outbox ?st' = outbox st")
      case True
      then show ?thesis by (intro exI [of _ "[]"]) simp
    next
      case False
      with None res have "outbox ?st' = outbox st @
          [formatEntry (data_symbol data) (getDirection (data_lastPrice data) ip)
             (data_lastPrice data) ip (calcSpread (data_lastPrice data) ip)]"
        by (simp add: processTickerData_def Let_def sendTelegram_def split: if_splits)
      then show ?thesis
        by (intro exI [of _ "[formatEntry (data_symbol data) (getDirection (data_lastPrice data) ip)
             (data_lastPrice data) ip (calcSpread (data_lastPrice data) ip)]"]) simp
    qed
  next
    case (Some sig)
    show ?thesis
    proof (cases "outbox ?st' = outbox st")
      case True
      then show ?thesis by (intro exI [of _ "[]"]) simp
    next
      case False
      with Some res have "outbox ?st' = outbox st @
          [formatExit (data_symbol data) (direction sig) (data_lastPrice data) ip
             (calcSpread (data_lastPrice data) ip) (entrySpread sig)] \<and>
          activeSignals ?st' (data_symbol data) = None"
        by (simp add: processTickerData_def Let_def sendTelegram_def split: if_splits)
      with Some show ?thesis
        by (intro exI [of _ "[formatExit (data_symbol data) (direction sig) (data_lastPrice data) ip
             (calcSpread (data_lastPrice data) ip) (entrySpread sig)]"]) simp
    qed
  qed
  have kept: "activeSignals ?st' k = Some sig \<or> activeSignals ?st' k = None"
    if "activeSignals st k = Some sig" for k sig
    using that res
    by (auto simp add: processTickerData_def Let_def sendTelegram_def split: if_splits option.splits)
  have opened: "k = data_symbol data \<and> direction sig = getDirection (data_lastPrice data)
        (fst (resolveIndexPrice (data_symbol data) (data_indexPrice data) (lastIndexPrice st)))"
    if "activeSignals st k = None" and "activeSignals ?st' k = Some sig" for k sig
    using that res
    by (auto simp add: processTickerData_def Let_def sendTelegram_def split: if_splits option.splits)
  have example: "outbox (processTicks defaultConfig
      [(atTime 1700000000000, tick ''BTCUSDT'' (Num 99) (Num 100)),
       (atTime 1700000005000, tick ''BTCUSDT'' (Num (801 / 8)) (Num 100))]
      initialState) =
      [formatEntry (Some ''BTCUSDT'') LONG (Num 99) (Num 100) (Num (- 1)),
       formatExit (Some ''BTCUSDT'') LONG (Num (801 / 8)) (Num 100) (Num (1 / 8)) (Num (- 1))]"
    by (simp add: handler_defs example_defs)
  have "getDirection (Num (801 / 8)) (Num 100) = SHORT"
    by (simp add: getDirection_def)
  with sent kept opened example show ?thesis by blast
qed

text \<open>
  A \<open>SHORT\<close> signal of \<open>BTCUSDT\<close> is open, entered at spread 1. A tick with traded price 0
  against \<open>100\<close>, whose own direction is \<open>LONG\<close>, has spread 0 and closes the signal; the Exit
  text says \<open>SHORT\<close> and carries the entry spread 1.
\<close>

theorem exit_reports_entry_direction_witness:
  "activeSignals
     (stateWithSignal ''BTCUSDT'' \<lparr>direction = SHORT, entryTime = 1700000000000, entrySpread = Num 1\<rparr>
        1700000000000) (Some ''BTCUSDT'') =
     Some \<lparr>direction = SHORT, entryTime = 1700000000000, entrySpread = Num 1\<rparr> \<and>
   getDirection (Num 0) (Num 100) = LONG \<and>
   outbox (processTickerData defaultConfig (atTime 1700000005000)
     (tick ''BTCUSDT'' (Num 0) (Num 100))
     (stateWithSignal ''BTCUSDT'' \<lparr>direction = SHORT, entryTime = 1700000000000, entrySpread = Num 1\<rparr>
        1700000000000)) =
     [formatExit (Some ''BTCUSDT'') SHORT (Num 0) (Num 100) (Num 0) (Num 1)] \<and>
   (\<exists>sig. activeSignals
       (stateWithSignal ''BTCUSDT'' \<lparr>direction = SHORT, entryTime = 1700000000000, entrySpread = Num 1\<rparr>
          1700000000000) (Some ''BTCUSDT'') = Some sig \<and>
      SHORT = direction sig \<and> Num 1 = entrySpread sig) \<and>
   activeSignals (processTickerData defaultConfig (atTime 1700000005000)
     (tick ''BTCUSDT'' (Num 0) (Num 100))
     (stateWithSignal ''BTCUSDT'' \<lparr>direction = SHORT, entryTime = 1700000000000, entrySpread = Num 1\<rparr>
        1700000000000)) (Some ''BTCUSDT'') = None"
proof -
  let ?st = "stateWithSignal ''BTCUSDT''
    \<lparr>direction = SHORT, entryTime = 1700000000000, entrySpread = Num 1\<rparr> 1700000000000"
  let ?st' = "processTickerData defaultConfig (atTime 1700000005000)
     (tick ''BTCUSDT'' (Num 0) (Num 100)) ?st"
  have a: "activeSignals ?st (Some ''BTCUSDT'') =
     Some \<lparr>direction = SHORT, entryTime = 1700000000000, entrySpread = Num 1\<rparr>"
    by (simp add: example_defs)
  have d: "getDirection (Num 0) (Num 100) = LONG"
    by (simp add: getDirection_def)
  have sent: "outbox ?st' = [formatExit (Some ''BTCUSDT'') SHORT (Num 0) (Num 100) (Num 0) (Num 1)]"
    by (simp add: handler_defs example_defs)
  from exit_reports_entry_direction [of defaultConfig "atTime 1700000005000"
      "tick ''BTCUSDT'' (Num 0) (Num 100)" ?st, THEN conjunct1]
  obtain new where new: "outbox ?st' = outbox ?st @ new"
    and exits: "\<forall>k d lp ip sp es. formatExit k d lp ip sp es \<in> set new \<longrightarrow>
          k = data_symbol (tick ''BTCUSDT'' (Num 0) (Num 100)) \<and>
          (\<exists>sig. activeSignals ?st k = Some sig \<and> d = direction sig \<and> es = entrySpread sig) \<and>
          activeSignals ?st' k = None"
    by blast
  have "outbox ?st = []"
    by (simp add: example_defs)
  with new sent have "new = [formatExit (Some ''BTCUSDT'') SHORT (Num 0) (Num 100) (Num 0) (Num 1)]"
    by simp
  then have "formatExit (Some ''BTCUSDT'') SHORT (Num 0) (Num 100) (Num 0) (Num 1) \<in> set new"
    by simp
  with exits have "(\<exists>sig. activeSignals ?st (Some ''BTCUSDT'') = Some sig \<and>
      SHORT = direction sig \<and> Num 1 = entrySpread sig) \<and>
      activeSignals ?st' (Some ''BTCUSDT'') = None"
    by blast
  with a d sent show ?thesis by blast
qed

section \<open>The cooldown\<close>







section \<open>Facts about the shards and the batches\<close>

lemma ceil_div_le_iff: "0 < b \<Longrightarrow> ceil_div a b \<le> k \<longleftrightarrow> a \<le> k * b"
proof -
  assume b: "0 < b"
  have "ceil_div a b \<le> k \<longleftrightarrow> (a + b - 1) div b < Suc k"
    by (simp add: ceil_div_def less_Suc_eq_le)
  also have "\<dots> \<longleftrightarrow> a + b - 1 < Suc k * b"
    using b by (rule div_less_iff_less_mult)
  also have "\<dots> \<longleftrightarrow> a \<le> k * b"
    using b by auto
  finally show ?thesis .
qed

lemma ceil_div_mult_ge: "0 < b \<Longrightarrow> a \<le> ceil_div a b * b"
  using ceil_div_le_iff [of b a "ceil_div a b"] by simp

lemma ceil_div_ceiling:
  assumes "0 < b"
  shows "int (ceil_div a b) = \<lceil>(of_nat a :: rat) / of_nat b\<rceil>"
proof -
  let ?c = "ceil_div a b"
  have upper: "(of_nat a :: rat) / of_nat b \<le> of_int (int ?c)"
  proof -
    have "(of_nat a :: rat) \<le> of_nat (?c * b)"
      using ceil_div_mult_ge [OF assms, of a] by (simp only: of_nat_le_iff)
    then show ?thesis
      using assms by (simp add: divide_le_eq)
  qed
  have lower: "of_int (int ?c) - 1 < (of_nat a :: rat) / of_nat b"
  proof (cases "?c = 0")
    case True
    have "(0 :: rat) \<le> of_nat a / of_nat b" by simp
    then have "(- 1 :: rat) < of_nat a / of_nat b" by linarith
    with True show ?thesis by simp
  next
    case False
    then have "\<not> ?c \<le> ?c - 1" by simp
    then have "(?c - 1) * b < a"
      using ceil_div_le_iff [OF assms, of a "?c - 1"] by simp
    then have "(of_nat ((?c - 1) * b) :: rat) < of_nat a"
      by (simp only: of_nat_less_iff)
    moreover have "(of_nat (?c - 1) :: rat) = of_nat ?c - 1"
      using False by (simp add: of_nat_diff)
    ultimately show ?thesis
      using assms by (simp add: less_divide_eq)
  qed
  from ceiling_unique [OF lower upper] show ?thesis by simp
qed

lemma length_slice: "length (slice xs a b) = min (length xs - a) (b - a)"
  by (simp add: slice_def)

lemma length_initializeWebSockets:
  "length (initializeWebSockets M B symbols) = actualConnections (length symbols) M B"
  by (simp add: initializeWebSockets_def)

lemma nth_initializeWebSockets:
  "i < actualConnections (length symbols) M B \<Longrightarrow>
   initializeWebSockets M B symbols ! i =
     slice symbols (i * symbolsPerConnection (length symbols) M)
       (min ((i + 1) * symbolsPerConnection (length symbols) M) (length symbols))"
  by (simp add: initializeWebSockets_def)

lemma concat_slices:
  "concat (map (\<lambda>i. slice xs (i * c) (min ((i + 1) * c) (length xs))) [0 ..< n]) = take (n * c) xs"
proof (induction n)
  case 0
  then show ?case by simp
next
  case (Suc n)
  have "slice xs (n * c) (min ((n + 1) * c) (length xs)) = take c (drop (n * c) xs)"
    by (simp add: slice_def min_def) 
  moreover have "take (Suc n * c) xs = take (n * c) xs @ take c (drop (n * c) xs)"
    using take_add [of "n * c" c xs] by (simp add: add.commute)
  ultimately show ?case
    using Suc by simp
qed

lemma concat_initializeWebSockets:
  "concat (initializeWebSockets M B symbols) =
   take (actualConnections (length symbols) M B * symbolsPerConnection (length symbols) M) symbols"
  unfolding initializeWebSockets_def by (rule concat_slices)

text \<open>Shards are consecutive ranges of the list, so symbols that are distinct in the list
  occur in one shard at most, and once.\<close>

lemma distinct_concat_initializeWebSockets:
  "distinct symbols \<Longrightarrow> distinct (concat (initializeWebSockets M B symbols))"
  by (simp add: concat_initializeWebSockets)

lemma length_shard:
  assumes "i < actualConnections (length symbols) M B"
  shows "length (initializeWebSockets M B symbols ! i) =
         min ((i + 1) * symbolsPerConnection (length symbols) M) (length symbols)
           - i * symbolsPerConnection (length symbols) M"
  using assms by (auto simp add: nth_initializeWebSockets length_slice)

lemma batches_total:
  assumes "0 < B"
  shows "\<exists>bs. batches B symbols i = Some bs \<and> concat bs = drop i symbols \<and>
              (\<forall>b \<in> set bs. b \<noteq> [] \<and> length b \<le> B)"
  using assms
proof (induction B symbols i rule: batches.induct)
  case (1 B symbols i)
  show ?case
  proof (cases "i < length symbols")
    case False
    then show ?thesis by (simp add: batches.simps [of B symbols i])
  next
    case True
    with "1.prems" "1.IH" obtain bs where bs: "batches B symbols (i + B) = Some bs"
      "concat bs = drop (i + B) symbols" "\<forall>b \<in> set bs. b \<noteq> [] \<and> length b \<le> B"
      by auto
    have "slice symbols i (i + B) @ drop (i + B) symbols = drop i symbols"
      by (simp add: slice_def add.commute [of i B] flip: drop_drop)
    moreover have "slice symbols i (i + B) \<noteq> []" "length (slice symbols i (i + B)) \<le> B"
      using True "1.prems" by (auto simp add: slice_def)
    ultimately show ?thesis
      using True "1.prems" bs by (simp add: batches.simps [of B symbols i])
  qed
qed

lemma subscribeToSymbols_batches:
  assumes "0 < B"
  shows "\<exists>frames. subscribeToSymbols B symbols = Some frames \<and>
           (\<forall>args \<in> set frames. args \<noteq> [] \<and> length args \<le> B) \<and>
           concat frames = map (\<lambda>s. ''tickers.'' @ s) symbols"
proof -
  from batches_total [OF assms, of symbols 0] obtain bs where bs: "batches B symbols 0 = Some bs"
    "concat bs = symbols" "\<forall>b \<in> set bs. b \<noteq> [] \<and> length b \<le> B"
    by auto
  then show ?thesis
    by (auto simp add: subscribeToSymbols_def map_concat [symmetric])
qed

text \<open>
  Claim C4, as the code has it. For a universe of \<open>U \<ge> 1\<close> symbols, \<open>M \<ge> 1\<close> connections at
  most and batch size \<open>B \<ge> 1\<close>, the planner creates exactly \<open>min M (ceil (U / B))\<close> shards.
  When this count is \<open>M\<close>, that is when \<open>M \<le> ceil (U / B)\<close>, no shard has more than
  \<open>ceil (U / count)\<close> symbols, every shard whose range ends inside the universe
  (\<open>(i + 1) * ceil (U / count) \<le> U\<close>) has exactly that many, the shards after it hold the
  remainder, and the shards together are the universe.
\<close>

theorem shard_count_and_sizes:
  assumes "symbols \<noteq> []" and "1 \<le> M" and "1 \<le> B"
  shows "length (initializeWebSockets M B symbols) = min M (ceil_div (length symbols) B) \<and>
    (M \<le> ceil_div (length symbols) B \<longrightarrow>
       (\<forall>i < length (initializeWebSockets M B symbols).
          length (initializeWebSockets M B symbols ! i)
            \<le> ceil_div (length symbols) (length (initializeWebSockets M B symbols)) \<and>
          ((i + 1) * ceil_div (length symbols) (length (initializeWebSockets M B symbols))
             \<le> length symbols \<longrightarrow>
           length (initializeWebSockets M B symbols ! i)
             = ceil_div (length symbols) (length (initializeWebSockets M B symbols)))) \<and>
       concat (initializeWebSockets M B symbols) = symbols)"
proof -
  let ?U = "length symbols"
  have count: "length (initializeWebSockets M B symbols) = min M (ceil_div ?U B)"
    using assms(3) by (simp add: length_initializeWebSockets actualConnections_def)
  have sizes: "length (initializeWebSockets M B symbols ! i) \<le> ceil_div ?U M \<and>
      ((i + 1) * ceil_div ?U M \<le> ?U \<longrightarrow>
         length (initializeWebSockets M B symbols ! i) = ceil_div ?U M)"
    if "i < length (initializeWebSockets M B symbols)" for i
    using that length_shard [of i symbols M B]
    by (auto simp add: length_initializeWebSockets symbolsPerConnection_def)
  have cover: "concat (initializeWebSockets M B symbols) = symbols" if "M \<le> ceil_div ?U B"
  proof -
    have "actualConnections ?U M B = M"
      using that assms(3) by (simp add: actualConnections_def)
    moreover have "?U \<le> M * ceil_div ?U M"
      using ceil_div_mult_ge [of M ?U] assms(2) by (simp add: mult.commute)
    ultimately show ?thesis
      by (simp add: concat_initializeWebSockets symbolsPerConnection_def)
  qed
  show ?thesis
  proof (intro conjI impI allI)
    show "length (initializeWebSockets M B symbols) = min M (ceil_div ?U B)" by (rule count)
  next
    fix i
    assume "M \<le> ceil_div ?U B" and "i < length (initializeWebSockets M B symbols)"
    then show "length (initializeWebSockets M B symbols ! i)
            \<le> ceil_div ?U (length (initializeWebSockets M B symbols))"
      using sizes [of i] count by (simp add: min_def)
  next
    fix i
    assume "M \<le> ceil_div ?U B" and "i < length (initializeWebSockets M B symbols)"
      and "(i + 1) * ceil_div ?U (length (initializeWebSockets M B symbols)) \<le> ?U"
    then show "length (initializeWebSockets M B symbols ! i)
            = ceil_div ?U (length (initializeWebSockets M B symbols))"
      using sizes [of i] count by (simp add: min_def)
  next
    assume "M \<le> ceil_div ?U B"
    then show "concat (initializeWebSockets M B symbols) = symbols" by (rule cover)
  qed
qed

text \<open>
  Five symbols over four connections with batches of one, and ten symbols over five
  connections with batches of two.
\<close>

theorem shard_count_and_sizes_witness:
  "[''A'', ''B'', ''C'', ''D'', ''E''] \<noteq> [] \<and> (1 :: nat) \<le> 4 \<and> (1 :: nat) \<le> 1 \<and>
   4 \<le> ceil_div (length [''A'', ''B'', ''C'', ''D'', ''E'']) 1 \<and>
   length (initializeWebSockets 4 1 [''A'', ''B'', ''C'', ''D'', ''E'']) = 4 \<and>
   ceil_div (length [''A'', ''B'', ''C'', ''D'', ''E''])
     (length (initializeWebSockets 4 1 [''A'', ''B'', ''C'', ''D'', ''E''])) = 2 \<and>
   length (initializeWebSockets 4 1 [''A'', ''B'', ''C'', ''D'', ''E''] ! 0) = 2 \<and>
   length (initializeWebSockets 4 1 [''A'', ''B'', ''C'', ''D'', ''E''] ! 1) = 2 \<and>
   length (initializeWebSockets 4 1 [''A'', ''B'', ''C'', ''D'', ''E''] ! 2) \<le> 2 \<and>
   length (initializeWebSockets 4 1 [''A'', ''B'', ''C'', ''D'', ''E''] ! 3) \<le> 2 \<and>
   concat (initializeWebSockets 4 1 [''A'', ''B'', ''C'', ''D'', ''E'']) =
     [''A'', ''B'', ''C'', ''D'', ''E''] \<and>
   length (initializeWebSockets 5 2 [0 ..< (10 :: nat)]) = 5 \<and>
   concat (initializeWebSockets 5 2 [0 ..< (10 :: nat)]) = [0 ..< 10]"
proof -
  have ne: "[''A'', ''B'', ''C'', ''D'', ''E''] \<noteq> []" "[0 ..< (10 :: nat)] \<noteq> []"
    by simp_all
  show ?thesis
    using shard_count_and_sizes [OF ne(1), of 4 1] shard_count_and_sizes [OF ne(2), of 5 2]
    by (simp add: initializeWebSockets_def symbolsPerConnection_def actualConnections_def
        ceil_div_def slice_def upt_conv_Cons)
qed

text \<open>
  Claim C4 as it is written gives every shard but the last the full target. Five symbols
  over four connections with batches of one make four shards with target
  \<open>ceil (5 / 4) = 2\<close>; the third shard, which is not the last, has one symbol.
\<close>

theorem shard_sizes_counterexample:
  "initializeWebSockets 4 1 [''A'', ''B'', ''C'', ''D'', ''E''] =
     [[''A'', ''B''], [''C'', ''D''], [''E''], []] \<and>
   ceil_div (length [''A'', ''B'', ''C'', ''D'', ''E''])
     (length (initializeWebSockets 4 1 [''A'', ''B'', ''C'', ''D'', ''E''])) = 2 \<and>
   length (initializeWebSockets 4 1 [''A'', ''B'', ''C'', ''D'', ''E''] ! 2) = 1"
  by (simp add: initializeWebSockets_def symbolsPerConnection_def actualConnections_def
      ceil_div_def slice_def upt_conv_Cons)

text \<open>
  Claim C2 asks that the shards together reproduce the universe for every \<open>M \<ge> 1\<close> and
  \<open>B \<ge> 1\<close>. \<^verbatim>\<open>initializeWebSockets\<close> sizes the shards by \<open>MAX_WS_CONNECTIONS\<close> and counts them by
  \<open>BATCH_SIZE\<close>: with three symbols, two connections at most and batches of three, the one
  shard holds the first two symbols and the third symbol is subscribed nowhere; with the
  default settings (five connections, batches of ten) and thirty symbols, the three shards
  hold the first eighteen.
\<close>

theorem shards_omit_symbols:
  "initializeWebSockets 2 3 [''BTCUSDT'', ''ETHUSDT'', ''SOLUSDT''] = [[''BTCUSDT'', ''ETHUSDT'']] \<and>
   concat (initializeWebSockets 2 3 [''BTCUSDT'', ''ETHUSDT'', ''SOLUSDT''])
     \<noteq> [''BTCUSDT'', ''ETHUSDT'', ''SOLUSDT''] \<and>
   concat (initializeWebSockets 5 10 [0 ..< 30]) = [0 ..< 18]"
  by (simp add: initializeWebSockets_def symbolsPerConnection_def actualConnections_def
      ceil_div_def slice_def upt_conv_Cons)

end
